theory Spec2Isabelle
  imports Complex_Main "HOL-Library.Monad_Syntax"
begin

section \<open>JavaScript strings\<close>

text \<open>
  A JavaScript string is a sequence of UTF-16 code units. The model covers the strings
  whose code units are below 256 (Latin-1): a \<^typ>\<open>char\<close> is one code unit, and
  \<open>length\<close> is the string's \<open>.length\<close>. On these strings \<open>toLowerCase\<close>,
  \<open>trim\<close> and the regular expression class \<open>\\s\<close> are as written below.
\<close>

definition toLowerChar :: "char \<Rightarrow> char" where
  "toLowerChar c =
     (let n = (of_char c :: nat) in
      if (65 \<le> n \<and> n \<le> 90) \<or> (192 \<le> n \<and> n \<le> 222 \<and> n \<noteq> 215)
      then char_of (n + 32) else c)"

definition toLowerCase :: "string \<Rightarrow> string" where
  "toLowerCase s = map toLowerChar s"

text \<open>White space of \<open>trim()\<close> and of \<open>\\s\<close>: TAB, LF, VT, FF, CR, SP and NBSP.\<close>

definition isWhitespace :: "char \<Rightarrow> bool" where
  "isWhitespace c = ((of_char c :: nat) \<in> {9, 10, 11, 12, 13, 32, 160})"

definition trim :: "string \<Rightarrow> string" where
  "trim s = rev (dropWhile isWhitespace (rev (dropWhile isWhitespace s)))"

text \<open>\<open>s.startsWith(p)\<close>, \<open>s.endsWith(p)\<close> and \<open>s.includes(p)\<close>.\<close>

definition startsWith :: "string \<Rightarrow> string \<Rightarrow> bool" where
  "startsWith s p = (take (length p) s = p)"

definition endsWith :: "string \<Rightarrow> string \<Rightarrow> bool" where
  "endsWith s p = (length p \<le> length s \<and> drop (length s - length p) s = p)"

fun includes_s :: "string \<Rightarrow> string \<Rightarrow> bool" where
  "includes_s [] p = (p = [])"
| "includes_s (c # cs) p = (startsWith (c # cs) p \<or> includes_s cs p)"

text \<open>
  \<open>s.split(/\\s+/)\<close>: the pieces between the maximal runs of white space. A string
  that starts (ends) with white space gives an empty first (last) piece, and the empty
  string gives one empty piece. \<open>acc\<close> is the piece being read.
\<close>

function split_ws :: "string \<Rightarrow> string \<Rightarrow> string list" where
  "split_ws acc [] = [acc]"
| "split_ws acc (c # cs) =
     (if isWhitespace c then acc # split_ws [] (dropWhile isWhitespace cs)
      else split_ws (acc @ [c]) cs)"
  by pat_completeness auto
termination
  by (relation "measure (\<lambda>(acc, s). length s)")
     (auto simp: length_dropWhile_le le_imp_less_Suc)

text \<open>
  An exception thrown: an \<open>Error\<close> with its message, or a \<open>TypeError\<close>, that of a
  property read on \<open>null\<close> or \<open>undefined\<close> or of a call of a value that is no
  function.
\<close>

datatype error = Error string | TypeError

section \<open>Council matcher (council-matcher.ts)\<close>

record CouncilInfo =
  council :: string
  url :: string
  region :: string
  ctype :: string

datatype Confidence = Exact | High | Medium | Low

text \<open>
  A \<open>CouncilMatch\<close>; its field \<open>council\<close> is \<open>mcouncil\<close> here, the name
  \<open>council\<close> being the name field of \<open>CouncilInfo\<close>. A score is a JavaScript
  number; a number literal of the source stands for the real number that it writes.
\<close>

record CouncilMatch =
  mcouncil :: CouncilInfo
  score :: real
  confidence :: Confidence

text \<open>The inner loop of the word matching: does some council word match \<open>queryWord\<close>?\<close>

fun wordMatch :: "string \<Rightarrow> string list \<Rightarrow> bool" where
  "wordMatch queryWord [] = False"
| "wordMatch queryWord (councilWord # rest) =
     (if queryWord = councilWord \<or> includes_s councilWord queryWord
         \<or> includes_s queryWord councilWord
      then True else wordMatch queryWord rest)"

text \<open>The outer loop: \<open>wordMatches\<close>, counted from \<open>n\<close>.\<close>

fun countWordMatches :: "nat \<Rightarrow> string list \<Rightarrow> string list \<Rightarrow> nat" where
  "countWordMatches n [] councilWords = n"
| "countWordMatches n (queryWord # rest) councilWords =
     countWordMatches (if wordMatch queryWord councilWords then n + 1 else n) rest councilWords"

text \<open>
  \<open>calculateSimilarity\<close>. The module imports the name \<open>levenshtein\<close> from the
  package \<open>fast-levenshtein\<close>. The package exports one function, \<open>get\<close>, and no
  \<open>levenshtein\<close>: the imported binding is \<open>undefined\<close>, and the call
  \<open>levenshtein(queryLower, councilLower)\<close> throws a \<open>TypeError\<close>. So the function
  returns in its first two branches only. What the third branch computes before the call
  (the words, \<open>wordMatches\<close>, its quotient \<open>wordMatchRatio\<close>, \<open>maxLength\<close>) is lost
  with the throw, and the two statements after the call never run. The numbers returned
  are the literals \<open>1.0\<close> and \<open>0.9\<close>.
\<close>

definition calculateSimilarity :: "string \<Rightarrow> string \<Rightarrow> error + real" where
  "calculateSimilarity query councilName =
     (let queryLower = toLowerCase query;
          councilLower = toLowerCase councilName
      in if queryLower = councilLower then Inr 1
         else if includes_s councilLower queryLower \<or> includes_s queryLower councilLower
         then Inr (9 / 10)
         else
           let queryWords = split_ws [] queryLower;
               councilWords = split_ws [] councilLower;
               wordMatches = countWordMatches 0 queryWords councilWords;
               maxLength = max (length queryLower) (length councilLower)
           in Inl TypeError)"

definition getConfidence :: "real \<Rightarrow> Confidence" where
  "getConfidence s =
     (if s \<ge> 95 / 100 then Exact
      else if s \<ge> 8 / 10 then High
      else if s \<ge> 6 / 10 then Medium
      else Low)"

text \<open>
  The loop of \<open>findBestMatch\<close> over the councils; \<open>bestMatch\<close> is \<open>None\<close> for
  \<open>null\<close>. What \<open>calculateSimilarity\<close> throws ends the loop and the function.
\<close>

fun bestMatchLoop ::
  "string \<Rightarrow> CouncilMatch option \<Rightarrow> CouncilInfo list \<Rightarrow> error + CouncilMatch option" where
  "bestMatchLoop query bestMatch [] = Inr bestMatch"
| "bestMatchLoop query bestMatch (c # cs) =
     (case calculateSimilarity query (council c) of
        Inl e \<Rightarrow> Inl e
      | Inr s \<Rightarrow>
          bestMatchLoop query
            (if (case bestMatch of None \<Rightarrow> True | Some b \<Rightarrow> s > score b)
             then Some \<lparr>mcouncil = c, score = s, confidence = getConfidence s\<rparr>
             else bestMatch) cs)"

definition findBestMatch :: "CouncilInfo list \<Rightarrow> string \<Rightarrow> error + CouncilMatch option" where
  "findBestMatch councils query =
     (if query = [] \<or> length (trim query) = 0 then Inr None
      else bestMatchLoop query None councils)"

text \<open>
  The loop of \<open>findMatches\<close>: \<open>matches\<close> holds the matches pushed so far, in the
  order of the councils. What \<open>calculateSimilarity\<close> throws ends the loop and the
  function.
\<close>

fun matchesLoop ::
  "string \<Rightarrow> real \<Rightarrow> CouncilMatch list \<Rightarrow> CouncilInfo list \<Rightarrow> error + CouncilMatch list" where
  "matchesLoop query minScore matches [] = Inr matches"
| "matchesLoop query minScore matches (c # cs) =
     (case calculateSimilarity query (council c) of
        Inl e \<Rightarrow> Inl e
      | Inr s \<Rightarrow>
          matchesLoop query minScore
            (if s \<ge> minScore
             then matches @ [\<lparr>mcouncil = c, score = s, confidence = getConfidence s\<rparr>]
             else matches) cs)"

text \<open>
  \<open>Array.prototype.sort(compare)\<close>: a stable sort, \<open>a\<close> before \<open>b\<close> when
  \<open>compare(a, b) \<le> 0\<close>. It is an insertion sort here.
\<close>

fun insert_cmp :: "('a \<Rightarrow> 'a \<Rightarrow> real) \<Rightarrow> 'a \<Rightarrow> 'a list \<Rightarrow> 'a list" where
  "insert_cmp cmp x [] = [x]"
| "insert_cmp cmp x (y # ys) =
     (if cmp x y \<le> 0 then x # y # ys else y # insert_cmp cmp x ys)"

definition sort_cmp :: "('a \<Rightarrow> 'a \<Rightarrow> real) \<Rightarrow> 'a list \<Rightarrow> 'a list" where
  "sort_cmp cmp xs = foldr (insert_cmp cmp) xs []"

text \<open>
  \<open>findMatches\<close>; a caller that leaves \<open>minScore\<close> out passes its default, 0.3.
\<close>

definition findMatches :: "CouncilInfo list \<Rightarrow> string \<Rightarrow> real \<Rightarrow> error + CouncilMatch list" where
  "findMatches councils query minScore =
     (if query = [] \<or> length (trim query) = 0 then Inr []
      else
        (case matchesLoop query minScore [] councils of
           Inl e \<Rightarrow> Inl e
         | Inr matches \<Rightarrow> Inr (sort_cmp (\<lambda>a b. score b - score a) matches)))"

text \<open>An order on the tiers, to state that the tier grows with the score.\<close>

fun tierRank :: "Confidence \<Rightarrow> nat" where
  "tierRank Low = 0"
| "tierRank Medium = 1"
| "tierRank High = 2"
| "tierRank Exact = 3"

section \<open>Endpoint resolver (ModgovClient.getEndpointUrl)\<close>

text \<open>
  \<open>s.replace(pat, rep)\<close> with a string pattern: the first occurrence of \<open>pat\<close> is
  replaced (\<open>rep\<close> holds no \<open>$\<close> pattern here).
\<close>

fun replace_s :: "string \<Rightarrow> string \<Rightarrow> string \<Rightarrow> string" where
  "replace_s pat rep [] = (if pat = [] then rep else [])"
| "replace_s pat rep (c # cs) =
     (if startsWith (c # cs) pat then rep @ drop (length pat) (c # cs)
      else c # replace_s pat rep cs)"

text \<open>\<open>s.replace(/\\/$/, '')\<close>: one slash at the end of the string is removed.\<close>

definition removeTrailingSlash :: "string \<Rightarrow> string" where
  "removeTrailingSlash s = (if endsWith s ''/'' then take (length s - 1) s else s)"

text \<open>\<open>s.replace(/\\/democracy\\/?$/, '')\<close>.\<close>

definition removeDemocracySuffix :: "string \<Rightarrow> string" where
  "removeDemocracySuffix s =
     (if endsWith s ''/democracy/'' then take (length s - 11) s
      else if endsWith s ''/democracy'' then take (length s - 10) s
      else s)"

text \<open>\<open>s.replace(/^https?:\\/\\//, '')\<close>.\<close>

definition removeHttpPrefix :: "string \<Rightarrow> string" where
  "removeHttpPrefix s =
     (if startsWith s ''https://'' then drop 8 s
      else if startsWith s ''http://'' then drop 7 s
      else s)"

text \<open>
  \<open>s.split(sep)\<close> with a string separator that is not empty (the resolver splits on
  \<open>://\<close> and on \<open>/\<close>); \<open>acc\<close> is the piece being read.
\<close>

fun split_s :: "string \<Rightarrow> string \<Rightarrow> string \<Rightarrow> string list" where
  "split_s sep acc [] = [acc]"
| "split_s sep acc (c # cs) =
     (if sep \<noteq> [] \<and> startsWith (c # cs) sep
      then acc # split_s sep [] (drop (length sep - 1) cs)
      else split_s sep (acc @ [c]) cs)"

definition getEndpointUrl :: "string \<Rightarrow> string \<Rightarrow> string" where
  "getEndpointUrl siteUrl operation =
     (let baseUrl = removeTrailingSlash (replace_s ''?WSDL'' [] siteUrl);
          webServiceUrl =
            (if \<not> includes_s baseUrl ''/mgWebService.asmx'' then
               (if endsWith baseUrl ''/democracy'' \<or> endsWith baseUrl ''/democracy/''
                then removeDemocracySuffix baseUrl @ ''/democracy/mgWebService.asmx''
                else if \<not> includes_s baseUrl ''/mgWebService.asmx'' then
                  (let urlParts = split_s ''://'' [] baseUrl
                   in if length urlParts = 2
                      then (let domain = hd (split_s ''/'' [] (urlParts ! 1))
                            in ''https://'' @ domain @ ''/mgWebService.asmx'')
                      else ''https://'' @ removeHttpPrefix baseUrl @ ''/mgWebService.asmx'')
                else baseUrl)
             else baseUrl)
      in webServiceUrl @ ''/'' @ operation)"

section \<open>Rate limiter (ModgovClient.checkRateLimit)\<close>

text \<open>
  The fields of \<open>new URL(siteUrl)\<close> that the client and the glossary's origin use. The
  URL parser belongs to the platform: the client's functions take its result.
\<close>

record URL =
  protocol :: string
  hostname :: string
  port :: string

text \<open>The origin of a URL: scheme, host and port.\<close>

definition origin :: "URL \<Rightarrow> string" where
  "origin u = protocol u @ ''//'' @ hostname u @ (if port u = [] then [] else '':'' @ port u)"

type_synonym limiter = "string \<rightharpoonup> int"

definition rateLimitMs :: int where
  "rateLimitMs = 1000"

text \<open>\<open>this.rateLimiter.get(domain) || 0\<close>: a missing entry and a stored 0 both give 0.\<close>

definition lastRequestOf :: "limiter \<Rightarrow> string \<Rightarrow> int" where
  "lastRequestOf rl domain = (case rl domain of None \<Rightarrow> 0 | Some t \<Rightarrow> t)"

text \<open>
  \<open>checkRateLimit\<close>, with the clock written out: \<open>now\<close> is the first reading of
  \<open>Date.now()\<close>, in milliseconds, and \<open>timer w\<close> is the time that the awaited
  \<open>setTimeout(resolve, w)\<close> takes. The second reading of \<open>Date.now()\<close>, the time
  recorded, is \<open>now + timer waitTime\<close> after a wait and \<open>now\<close> without one. The
  result is the new limiter and the time recorded.
\<close>

definition checkRateLimit :: "(int \<Rightarrow> int) \<Rightarrow> limiter \<Rightarrow> URL \<Rightarrow> int \<Rightarrow> limiter \<times> int" where
  "checkRateLimit timer rl u now =
     (let domain = hostname u;
          lastRequest = lastRequestOf rl domain;
          recorded =
            (if now - lastRequest < rateLimitMs
             then (let waitTime = rateLimitMs - (now - lastRequest) in now + timer waitTime)
             else now)
      in (rl(domain \<mapsto> recorded), recorded))"

section \<open>Parsed XML and the values of the normalizers\<close>

text \<open>
  The values that \<open>parseStringPromise\<close> of the package \<open>xml2js\<close> returns with the
  client's options (\<open>explicitArray: false\<close>, \<open>ignoreAttrs: true\<close>, \<open>trim: true\<close>):
  an element with children is an object, keyed by the children's names; children of one
  name are an array; an element with text only is a string; the result of an empty
  document is \<open>null\<close>. A missing property reads as \<open>undefined\<close>.
\<close>

datatype jsval =
    Undefined
  | Null
  | Str string
  | Obj "(string \<times> jsval) list"
  | Arr "jsval list"

fun truthy :: "jsval \<Rightarrow> bool" where
  "truthy Undefined = False"
| "truthy Null = False"
| "truthy (Str s) = (s \<noteq> [])"
| "truthy (Obj kvs) = True"
| "truthy (Arr xs) = True"

fun nullish :: "jsval \<Rightarrow> bool" where
  "nullish Undefined = True"
| "nullish Null = True"
| "nullish v = False"

text \<open>\<open>a || b\<close>.\<close>

definition or_else :: "jsval \<Rightarrow> jsval \<Rightarrow> jsval" where
  "or_else a b = (if truthy a then a else b)"

text \<open>
  \<open>v.k\<close> for a value \<open>v\<close> that is neither \<open>null\<close> nor \<open>undefined\<close>, and for the
  names \<open>k\<close> that the normalizers read (none is a property of a string or of an array).
\<close>

fun get :: "jsval \<Rightarrow> string \<Rightarrow> jsval" where
  "get (Obj kvs) k = (case map_of kvs k of None \<Rightarrow> Undefined | Some v \<Rightarrow> v)"
| "get v k = Undefined"

text \<open>\<open>v.k\<close> for any \<open>v\<close>: \<open>None\<close> when the read throws a \<open>TypeError\<close>.\<close>

definition readProp :: "jsval \<Rightarrow> string \<Rightarrow> jsval option" where
  "readProp v k = (if nullish v then None else Some (get v k))"

text \<open>\<open>v?.k\<close>.\<close>

definition opt_prop :: "jsval \<Rightarrow> string \<Rightarrow> jsval" where
  "opt_prop v k = (if nullish v then Undefined else get v k)"

text \<open>\<open>Array.isArray(v) ? v : [v]\<close>.\<close>

fun toArray :: "jsval \<Rightarrow> jsval list" where
  "toArray (Arr xs) = xs"
| "toArray v = [v]"

text \<open>\<open>xs.map(f)\<close> for a callback that may throw: the first exception ends the map.\<close>

fun mapM :: "('a \<Rightarrow> 'b option) \<Rightarrow> 'a list \<Rightarrow> 'b list option" where
  "mapM f [] = Some []"
| "mapM f (x # xs) =
     (case f x of None \<Rightarrow> None
      | Some y \<Rightarrow> (case mapM f xs of None \<Rightarrow> None | Some ys \<Rightarrow> Some (y # ys)))"

text \<open>
  The body of a \<open>try\<close> whose \<open>catch\<close> throws \<open>new Error(msg)\<close> for whatever was
  thrown: \<open>parsed\<close> is the result of \<open>parseStringPromise\<close>, \<open>body\<close> the rest of the
  \<open>try\<close>.
\<close>

definition tryParse ::
  "string \<Rightarrow> (error + jsval) \<Rightarrow> (jsval \<Rightarrow> 'a option) \<Rightarrow> error + 'a" where
  "tryParse msg parsed body =
     (case parsed of
        Inl e \<Rightarrow> Inl (Error msg)
      | Inr response \<Rightarrow> (case body response of None \<Rightarrow> Inl (Error msg) | Some r \<Rightarrow> Inr r))"

subsection \<open>The records returned\<close>

text \<open>
  The fields hold what the normalizers store: a value of the parsed XML or a default. A
  field name that two interfaces share is prefixed in the later record.
\<close>

record Councillors =
  councillorcount :: jsval
  councillor :: "jsval list"

record Ward =
  wardtitle :: jsval
  councillors :: Councillors

record Committee =
  committeeid :: jsval
  committeetitle :: jsval
  committeedescription :: jsval
  committeetype :: jsval

record Meeting =
  meetingid :: jsval
  meetingtitle :: jsval
  meetingdate :: jsval
  meetingtime :: jsval
  meetinglocation :: jsval
  meeting_committeeid :: jsval
  meeting_committeetitle :: jsval

record CalendarEvent =
  eventid :: jsval
  eventtitle :: jsval
  eventdate :: jsval
  eventdescription :: jsval
  eventlocation :: jsval

record ParishCouncil =
  parishcouncilid :: jsval
  parishcounciltitle :: jsval
  parishcouncilwebsite :: jsval
  parishcouncilcontact :: jsval

record ElectionResult =
  electionid :: jsval
  electiontitle :: jsval
  electiondate :: jsval
  results :: jsval

record WebCastMeeting =
  webcast_meetingid :: jsval
  webcast_meetingtitle :: jsval
  webcasturl :: jsval
  webcast_meetingdate :: jsval

record MpOrMepInfo =
  mpid :: jsval
  mpname :: jsval
  constituency :: jsval
  party :: jsval
  wards :: jsval

subsection \<open>parseCouncillorsResponse\<close>

definition mkWard :: "jsval \<Rightarrow> Ward option" where
  "mkWard ward =
     (if nullish ward then None
      else Some
        \<lparr>wardtitle = or_else (get ward ''wardtitle'') (Str ''''),
         councillors =
           \<lparr>councillorcount =
              or_else (opt_prop (get ward ''councillors'') ''councillorcount'') (Str ''0''),
            councillor =
              (case opt_prop (get ward ''councillors'') ''councillor'' of
                 Arr xs \<Rightarrow> xs
               | c \<Rightarrow> if truthy c then [c] else [])\<rparr>\<rparr>)"

definition councillorsBody :: "jsval \<Rightarrow> Ward list option" where
  "councillorsBody response =
     do {
       byward \<leftarrow> readProp response ''councillorsbyward'';
       bywardid \<leftarrow> readProp response ''councillorsbywardid'';
       bypostcode \<leftarrow> readProp response ''councillorsbypostcode'';
       let rootElement = or_else (or_else byward bywardid) bypostcode;
       if \<not> truthy rootElement \<or> \<not> truthy (get rootElement ''wards'')
          \<or> \<not> truthy (get (get rootElement ''wards'') ''ward'')
       then Some []
       else mapM mkWard (toArray (get (get rootElement ''wards'') ''ward''))
     }"

definition parseCouncillorsResponse ::
  "(string \<Rightarrow> error + jsval) \<Rightarrow> string \<Rightarrow> error + Ward list" where
  "parseCouncillorsResponse parseStringPromise xmlData =
     tryParse ''Failed to parse API response'' (parseStringPromise xmlData) councillorsBody"

subsection \<open>parseCommitteesResponse\<close>

definition mkCommittee :: "jsval \<Rightarrow> Committee option" where
  "mkCommittee committee =
     (if nullish committee then None
      else Some
        \<lparr>committeeid = or_else (get committee ''committeeid'') (Str ''''),
         committeetitle = or_else (get committee ''committeetitle'') (Str ''''),
         committeedescription = or_else (get committee ''committeedescription'') (Str ''''),
         committeetype = or_else (get committee ''committeetype'') (Str '''')\<rparr>)"

definition committeesBody :: "jsval \<Rightarrow> Committee list option" where
  "committeesBody response =
     do {
       committeesElement \<leftarrow> readProp response ''committees'';
       if \<not> truthy committeesElement \<or> \<not> truthy (get committeesElement ''committee'')
       then Some []
       else mapM mkCommittee (toArray (get committeesElement ''committee''))
     }"

definition parseCommitteesResponse ::
  "(string \<Rightarrow> error + jsval) \<Rightarrow> string \<Rightarrow> error + Committee list" where
  "parseCommitteesResponse parseStringPromise xmlData =
     tryParse ''Failed to parse committees response'' (parseStringPromise xmlData)
       committeesBody"

subsection \<open>parseMeetingsResponse\<close>

text \<open>The meetings of structure 1a, under their committee.\<close>

definition mkCommitteeMeeting :: "jsval \<Rightarrow> jsval \<Rightarrow> Meeting option" where
  "mkCommitteeMeeting committee meeting =
     (if nullish meeting then None
      else Some
        \<lparr>meetingid = or_else (get meeting ''meetingid'') (Str ''''),
         meetingtitle = or_else (get meeting ''meetingstatus'') (Str ''Council Meeting''),
         meetingdate = or_else (get meeting ''meetingdate'') (Str ''''),
         meetingtime = or_else (get meeting ''meetingtime'') (Str ''''),
         meetinglocation = Str '''',
         meeting_committeeid = or_else (get committee ''committeeid'') (Str ''''),
         meeting_committeetitle = or_else (get committee ''committeetitle'') (Str '''')\<rparr>)"

text \<open>The meetings of structure 2, each with its own committee fields.\<close>

definition mkDatedMeeting :: "jsval \<Rightarrow> Meeting option" where
  "mkDatedMeeting meeting =
     (if nullish meeting then None
      else Some
        \<lparr>meetingid = or_else (get meeting ''meetingid'') (Str ''''),
         meetingtitle = or_else (get meeting ''meetingstatus'') (Str ''Council Meeting''),
         meetingdate = or_else (get meeting ''meetingdate'') (Str ''''),
         meetingtime = or_else (get meeting ''meetingtime'') (Str ''''),
         meetinglocation = Str '''',
         meeting_committeeid = or_else (get meeting ''committeeid'') (Str ''''),
         meeting_committeetitle = or_else (get meeting ''committeetitle'') (Str '''')\<rparr>)"

text \<open>
  The three checks on the body before it is parsed: the error thrown, if any.
  \<open>xmlString.substring(0, n)\<close> is \<open>take n xmlString\<close>.
\<close>

definition meetingsChecks :: "string \<Rightarrow> error option" where
  \<open>meetingsChecks xmlString =
     (if xmlString = [] \<or> trim xmlString = [] then
        Some (Error ''Server returned empty response. This usually indicates a server-side bug or missing parameters.'')
      else if \<not> startsWith (trim xmlString) ''<?xml'' \<and> \<not> startsWith (trim xmlString) ''<'' then
        Some (Error (''Server returned non-XML response: "'' @ take 100 xmlString
          @ ''...". Expected XML data but got different format. This usually indicates a server-side bug or missing parameters.''))
      else if startsWith (trim xmlString) ''<!DOCTYPE'' \<or> startsWith (trim xmlString) ''<html''
           \<or> startsWith (trim xmlString) ''<HTML''
           \<or> (includes_s xmlString ''<title>'' \<and> includes_s xmlString ''Error'') then
        Some (Error (''Server returned HTML error page instead of XML data. This usually indicates a server-side bug or missing parameters. Response preview: ''
          @ take 200 xmlString @ ''...''))
      else None)\<close>

text \<open>The shapes of the parsed response, in the order of the source.\<close>

definition meetingsBody :: "jsval \<Rightarrow> Meeting list option" where
  "meetingsBody response =
     do {
       getmeetings \<leftarrow> readProp response ''getmeetings'';
       if truthy getmeetings \<and> truthy (get getmeetings ''committee'') then
         (let committee = get getmeetings ''committee'';
              committeeMeetings = get committee ''committeemeetings''
          in if \<not> truthy committeeMeetings \<or> \<not> truthy (get committeeMeetings ''meeting'')
             then Some []
             else mapM (mkCommitteeMeeting committee)
                    (toArray (get committeeMeetings ''meeting'')))
       else if truthy getmeetings \<and> get getmeetings ''meetingscount'' \<noteq> Undefined then
         Some []
       else
         (let getmeetingsbydate = get response ''getmeetingsbydate''
          in if truthy getmeetingsbydate \<and> truthy (get getmeetingsbydate ''meetings'') then
               (let meetingsContainer = get getmeetingsbydate ''meetings''
                in if \<not> truthy meetingsContainer \<or> \<not> truthy (get meetingsContainer ''meeting'')
                   then Some []
                   else mapM mkDatedMeeting (toArray (get meetingsContainer ''meeting'')))
             else Some [])
     }"

text \<open>The body of the \<open>try\<close> of \<open>parseMeetingsResponse\<close>, with what it throws.\<close>

definition parseMeetingsTry ::
  "(string \<Rightarrow> error + jsval) \<Rightarrow> string \<Rightarrow> error + Meeting list" where
  "parseMeetingsTry parseStringPromise xmlString =
     (case meetingsChecks xmlString of
        Some e \<Rightarrow> Inl e
      | None \<Rightarrow>
          (case parseStringPromise xmlString of
             Inl e \<Rightarrow> Inl e
           | Inr response \<Rightarrow>
               (case meetingsBody response of None \<Rightarrow> Inl TypeError | Some ms \<Rightarrow> Inr ms)))"

text \<open>
  \<open>parseMeetingsResponse\<close>: the \<open>catch\<close> logs what was thrown and throws an
  \<open>Error\<close> of its own.
\<close>

definition parseMeetingsResponse ::
  "(string \<Rightarrow> error + jsval) \<Rightarrow> string \<Rightarrow> error + Meeting list" where
  "parseMeetingsResponse parseStringPromise xmlData =
     (case parseMeetingsTry parseStringPromise xmlData of
        Inl e \<Rightarrow> Inl (Error ''Failed to parse meetings response'')
      | Inr ms \<Rightarrow> Inr ms)"

subsection \<open>parseCalendarEventsResponse\<close>

definition mkCalendarEvent :: "jsval \<Rightarrow> CalendarEvent option" where
  "mkCalendarEvent event =
     (if nullish event then None
      else Some
        \<lparr>eventid = or_else (get event ''eventid'') (Str ''''),
         eventtitle = or_else (get event ''eventtitle'') (Str ''''),
         eventdate = or_else (get event ''eventdate'') (Str ''''),
         eventdescription = or_else (get event ''eventdescription'') (Str ''''),
         eventlocation = or_else (get event ''eventlocation'') (Str '''')\<rparr>)"

definition calendarEventsBody :: "jsval \<Rightarrow> CalendarEvent list option" where
  "calendarEventsBody response =
     do {
       eventsElement \<leftarrow> readProp response ''calendarevents'';
       if \<not> truthy eventsElement \<or> \<not> truthy (get eventsElement ''event'')
       then Some []
       else mapM mkCalendarEvent (toArray (get eventsElement ''event''))
     }"

definition parseCalendarEventsResponse ::
  "(string \<Rightarrow> error + jsval) \<Rightarrow> string \<Rightarrow> error + CalendarEvent list" where
  "parseCalendarEventsResponse parseStringPromise xmlData =
     tryParse ''Failed to parse calendar events response'' (parseStringPromise xmlData)
       calendarEventsBody"

subsection \<open>parseParishCouncilsResponse\<close>

definition mkParishCouncil :: "jsval \<Rightarrow> ParishCouncil option" where
  "mkParishCouncil parish =
     (if nullish parish then None
      else Some
        \<lparr>parishcouncilid = or_else (get parish ''parishcouncilid'') (Str ''''),
         parishcounciltitle = or_else (get parish ''parishcounciltitle'') (Str ''''),
         parishcouncilwebsite = or_else (get parish ''parishcouncilwebsite'') (Str ''''),
         parishcouncilcontact = or_else (get parish ''parishcouncilcontact'') (Str '''')\<rparr>)"

definition parishCouncilsBody :: "jsval \<Rightarrow> ParishCouncil list option" where
  "parishCouncilsBody response =
     do {
       councilsElement \<leftarrow> readProp response ''parishcouncils'';
       if \<not> truthy councilsElement \<or> \<not> truthy (get councilsElement ''parishcouncil'')
       then Some []
       else mapM mkParishCouncil (toArray (get councilsElement ''parishcouncil''))
     }"

definition parseParishCouncilsResponse ::
  "(string \<Rightarrow> error + jsval) \<Rightarrow> string \<Rightarrow> error + ParishCouncil list" where
  "parseParishCouncilsResponse parseStringPromise xmlData =
     tryParse ''Failed to parse parish councils response'' (parseStringPromise xmlData)
       parishCouncilsBody"

subsection \<open>parseElectionResultsResponse\<close>

definition mkElectionResult :: "jsval \<Rightarrow> ElectionResult option" where
  "mkElectionResult result =
     (if nullish result then None
      else Some
        \<lparr>electionid = or_else (get result ''electionid'') (Str ''''),
         electiontitle = or_else (get result ''electiontitle'') (Str ''''),
         electiondate = or_else (get result ''electiondate'') (Str ''''),
         results = or_else (get result ''results'') (Arr [])\<rparr>)"

definition electionResultsBody :: "jsval \<Rightarrow> ElectionResult list option" where
  "electionResultsBody response =
     do {
       resultsElement \<leftarrow> readProp response ''electionresults'';
       if \<not> truthy resultsElement \<or> \<not> truthy (get resultsElement ''electionresult'')
       then Some []
       else mapM mkElectionResult (toArray (get resultsElement ''electionresult''))
     }"

definition parseElectionResultsResponse ::
  "(string \<Rightarrow> error + jsval) \<Rightarrow> string \<Rightarrow> error + ElectionResult list" where
  "parseElectionResultsResponse parseStringPromise xmlData =
     tryParse ''Failed to parse election results response'' (parseStringPromise xmlData)
       electionResultsBody"

subsection \<open>parseWebCastMeetingsResponse\<close>

text \<open>
  The loop \<open>committees.forEach\<close> of the \<open>getmeetings\<close> branch: the meetings of every
  committee, pushed onto \<open>allMeetings\<close>.
\<close>

fun collectMeetings :: "jsval list \<Rightarrow> jsval list \<Rightarrow> jsval list option" where
  "collectMeetings allMeetings [] = Some allMeetings"
| "collectMeetings allMeetings (committee # rest) =
     (if nullish committee then None
      else if truthy (get committee ''meeting'')
      then collectMeetings (allMeetings @ toArray (get committee ''meeting'')) rest
      else collectMeetings allMeetings rest)"

definition mkWebCastFromMeeting :: "jsval \<Rightarrow> WebCastMeeting option" where
  "mkWebCastFromMeeting meeting =
     (if nullish meeting then None
      else Some
        \<lparr>webcast_meetingid = or_else (get meeting ''id'') (Str ''''),
         webcast_meetingtitle = or_else (get meeting ''title'') (Str ''''),
         webcasturl = or_else (get meeting ''webcasturl'') (Str ''''),
         webcast_meetingdate = or_else (get meeting ''date'') (Str '''')\<rparr>)"

definition mkWebCastMeeting :: "jsval \<Rightarrow> WebCastMeeting option" where
  "mkWebCastMeeting meeting =
     (if nullish meeting then None
      else Some
        \<lparr>webcast_meetingid = or_else (get meeting ''meetingid'') (Str ''''),
         webcast_meetingtitle = or_else (get meeting ''meetingtitle'') (Str ''''),
         webcasturl = or_else (get meeting ''webcasturl'') (Str ''''),
         webcast_meetingdate = or_else (get meeting ''meetingdate'') (Str '''')\<rparr>)"

definition webCastMeetingsBody :: "jsval \<Rightarrow> WebCastMeeting list option" where
  "webCastMeetingsBody response =
     do {
       meetingsElement \<leftarrow> readProp response ''webcastmeetings'';
       if \<not> truthy meetingsElement \<and> truthy (get response ''getmeetings'')
          \<and> truthy (get (get response ''getmeetings'') ''committee'')
       then
         do {
           allMeetings \<leftarrow>
             collectMeetings [] (toArray (get (get response ''getmeetings'') ''committee''));
           mapM mkWebCastFromMeeting allMeetings
         }
       else if \<not> truthy meetingsElement \<or> \<not> truthy (get meetingsElement ''webcastmeeting'')
       then Some []
       else mapM mkWebCastMeeting (toArray (get meetingsElement ''webcastmeeting''))
     }"

definition parseWebCastMeetingsResponse ::
  "(string \<Rightarrow> error + jsval) \<Rightarrow> string \<Rightarrow> error + WebCastMeeting list" where
  "parseWebCastMeetingsResponse parseStringPromise xmlData =
     tryParse ''Failed to parse webcast meetings response'' (parseStringPromise xmlData)
       webCastMeetingsBody"

subsection \<open>parseMpOrMepsAndWardsResponse\<close>

definition mkMpOrMep :: "jsval \<Rightarrow> MpOrMepInfo option" where
  "mkMpOrMep mp =
     (if nullish mp then None
      else Some
        \<lparr>mpid = or_else (get mp ''mpid'') (Str ''''),
         mpname = or_else (get mp ''fullusername'') (Str ''''),
         constituency = or_else (get mp ''constituency'') (Str ''''),
         party = or_else (get mp ''politicalpartytitle'') (Str ''''),
         wards = or_else (get mp ''wards'') (Arr [])\<rparr>)"

definition mpOrMepsBody :: "jsval \<Rightarrow> MpOrMepInfo list option" where
  "mpOrMepsBody response =
     do {
       mpsElement \<leftarrow> readProp response ''mpswards'';
       if \<not> truthy mpsElement \<or> \<not> truthy (get mpsElement ''mps'')
          \<or> \<not> truthy (get (get mpsElement ''mps'') ''mp'')
       then Some []
       else mapM mkMpOrMep (toArray (get (get mpsElement ''mps'') ''mp''))
     }"

definition parseMpOrMepsAndWardsResponse ::
  "(string \<Rightarrow> error + jsval) \<Rightarrow> string \<Rightarrow> error + MpOrMepInfo list" where
  "parseMpOrMepsAndWardsResponse parseStringPromise xmlData =
     tryParse ''Failed to parse MP/MEP response'' (parseStringPromise xmlData) mpOrMepsBody"

text \<open>A value that is neither \<open>undefined\<close> nor \<open>null\<close>.\<close>

definition defined :: "jsval \<Rightarrow> bool" where
  "defined v = (\<not> nullish v)"

text \<open>
  A field filled with default \<open>d\<close>: its value is defined, and it is a truthy value (one
  taken from the parsed XML) or the default.
\<close>

definition filled :: "jsval \<Rightarrow> jsval \<Rightarrow> bool" where
  "filled d v = (defined v \<and> (truthy v \<or> v = d))"

section \<open>The meetings operation (ModgovClient.getMeetings)\<close>

text \<open>A number in a template string: the decimal digits of a natural number.\<close>

fun numToString :: "nat \<Rightarrow> string" where
  "numToString n =
     (if n < 10 then [char_of (48 + n)]
      else numToString (n div 10) @ [char_of (48 + n mod 10)])"

text \<open>
  The response of \<open>axios.get\<close>, for a body that is text: its status (0 when it has
  none) and its data.
\<close>

record Response =
  status :: nat
  data :: string

text \<open>
  The message of what was thrown. The message of a \<open>TypeError\<close> is the engine's; the
  parsers of the client let none through.
\<close>

fun message :: "error \<Rightarrow> string" where
  "message (Error m) = m"
| "message TypeError = ''TypeError''"

definition handleApiResponse :: "Response \<Rightarrow> (string \<Rightarrow> error + 'a) \<Rightarrow> error + 'a" where
  "handleApiResponse response parser =
     (case (if status response \<noteq> 0 \<and> status response \<noteq> 200
            then Inl (Error (''API request failed with status code ''
                             @ numToString (status response)))
            else if data response = [] then Inl (Error ''No data received from API'')
            else parser (data response)) of
        Inl e \<Rightarrow> Inl (Error (''API parsing failed: '' @ message e))
      | Inr r \<Rightarrow> Inr r)"

record MeetingsParams =
  lCommitteeId :: int
  sFromDate :: string
  sToDate :: string

text \<open>
  An optional string argument is \<open>None\<close> when the caller leaves it out; it is truthy when
  it is there and not empty.
\<close>

definition given :: "string option \<Rightarrow> bool" where
  "given d = (case d of None \<Rightarrow> False | Some s \<Rightarrow> s \<noteq> [])"

text \<open>The parameters of the request; \<open>currentYear\<close> is \<open>new Date().getFullYear()\<close>.\<close>

definition meetingsParams ::
  "nat \<Rightarrow> int \<Rightarrow> string option \<Rightarrow> string option \<Rightarrow> MeetingsParams" where
  "meetingsParams currentYear committeeId fromDate toDate =
     (if given fromDate \<and> given toDate
      then \<lparr>lCommitteeId = committeeId,
            sFromDate = (case fromDate of Some f \<Rightarrow> f | None \<Rightarrow> []),
            sToDate = (case toDate of Some t \<Rightarrow> t | None \<Rightarrow> [])\<rparr>
      else \<lparr>lCommitteeId = committeeId,
            sFromDate = numToString currentYear @ ''-01-01'',
            sToDate = numToString currentYear @ ''-12-31''\<rparr>)"

text \<open>
  What the client takes from its platform and its packages: the URL parser (\<open>None\<close>
  when \<open>new URL\<close> throws), the clock, the timer, the HTTP client and the XML parser.
\<close>

record env =
  newURL :: "string \<Rightarrow> URL option"
  dateNow :: int
  setTimeout :: "int \<Rightarrow> int"
  getFullYear :: nat
  axiosGet :: "string \<Rightarrow> MeetingsParams \<Rightarrow> error + Response"
  parseStringPromise :: "string \<Rightarrow> error + jsval"

text \<open>
  \<open>getMeetings\<close>: the limiter after the call and the meetings or the error. The
  committee is \<open>None\<close> when the caller passes \<open>undefined\<close> or \<open>null\<close>.
\<close>

definition getMeetings ::
  "env \<Rightarrow> limiter \<Rightarrow> string \<Rightarrow> int option \<Rightarrow> string option \<Rightarrow> string option
   \<Rightarrow> limiter \<times> (error + Meeting list)" where
  "getMeetings e rl siteUrl committeeId fromDate toDate =
     (case newURL e siteUrl of
        None \<Rightarrow> (rl, Inl (Error (''Invalid URL format: '' @ siteUrl)))
      | Some u \<Rightarrow>
          (case committeeId of
             None \<Rightarrow> (rl, Inl (Error ''Missing required parameter: committeeId''))
           | Some cid \<Rightarrow>
               (let rl' = fst (checkRateLimit (setTimeout e) rl u (dateNow e));
                    endpoint = getEndpointUrl siteUrl ''GetMeetings'';
                    params = meetingsParams (getFullYear e) cid fromDate toDate
                in (rl',
                    case axiosGet e endpoint params of
                      Inl err \<Rightarrow> Inl err
                    | Inr response \<Rightarrow>
                        handleApiResponse response
                          (parseMeetingsResponse (parseStringPromise e))))))"

section \<open>Example documents\<close>

text \<open>
  The results of \<open>parseStringPromise\<close>, with the client's options, on the documents of
  the examples below; any other document is refused here.
\<close>

definition xml2js_examples :: "string \<Rightarrow> error + jsval" where
  "xml2js_examples doc =
     (case map_of
        [(''<councillorsbyward><wards><ward><wardtitle>Abbey</wardtitle><councillors><councillorcount>1</councillorcount><councillor><fullusername>Cllr A</fullusername></councillor></councillors></ward></wards></councillorsbyward>'',
          Obj [(''councillorsbyward'', Obj [(''wards'', Obj [(''ward'',
            Obj [(''wardtitle'', Str ''Abbey''),
                 (''councillors'', Obj [(''councillorcount'', Str ''1''),
                    (''councillor'', Obj [(''fullusername'', Str ''Cllr A'')])])])])])]),
         (''<committees><committee><committeeid>7</committeeid></committee></committees>'',
          Obj [(''committees'', Obj [(''committee'', Obj [(''committeeid'', Str ''7'')])])]),
         (''<getmeetings><meetingscount>0</meetingscount></getmeetings>'',
          Obj [(''getmeetings'', Obj [(''meetingscount'', Str ''0'')])]),
         (''<status><code>1</code></status>'',
          Obj [(''status'', Obj [(''code'', Str ''1'')])]),
         (''<getmeetings><committee><committeeid>7</committeeid><committeemeetings><meeting><meetingid>12</meetingid></meeting></committeemeetings></committee></getmeetings>'',
          Obj [(''getmeetings'', Obj [(''committee'',
            Obj [(''committeeid'', Str ''7''),
                 (''committeemeetings'',
                    Obj [(''meeting'', Obj [(''meetingid'', Str ''12'')])])])])]),
         (''<calendarevents><event><eventid>3</eventid></event></calendarevents>'',
          Obj [(''calendarevents'', Obj [(''event'', Obj [(''eventid'', Str ''3'')])])]),
         (''<parishcouncils><parishcouncil><parishcouncilid>4</parishcouncilid></parishcouncil></parishcouncils>'',
          Obj [(''parishcouncils'',
                Obj [(''parishcouncil'', Obj [(''parishcouncilid'', Str ''4'')])])]),
         (''<electionresults><electionresult><electionid>5</electionid></electionresult></electionresults>'',
          Obj [(''electionresults'',
                Obj [(''electionresult'', Obj [(''electionid'', Str ''5'')])])]),
         (''<webcastmeetings><webcastmeeting><meetingid>6</meetingid></webcastmeeting></webcastmeetings>'',
          Obj [(''webcastmeetings'',
                Obj [(''webcastmeeting'', Obj [(''meetingid'', Str ''6'')])])]),
         (''<mpswards><mps><mp><mpid>8</mpid></mp></mps></mpswards>'',
          Obj [(''mpswards'', Obj [(''mps'', Obj [(''mp'', Obj [(''mpid'', Str ''8'')])])])])]
        doc of
        Some v \<Rightarrow> Inr v
      | None \<Rightarrow> Inl (Error ''not an example document''))"

text \<open>Three councils, for evaluating the matcher.\<close>

definition councils_example :: "CouncilInfo list" where
  "councils_example =
     [\<lparr>council = ''Kent'', url = ''https://kent.example'', region = ''South East'',
       ctype = ''County''\<rparr>,
      \<lparr>council = ''York City'', url = ''https://york.example'', region = ''Yorkshire'',
       ctype = ''Unitary''\<rparr>,
      \<lparr>council = ''Cork'', url = ''https://cork.example'', region = ''Munster'',
       ctype = ''City''\<rparr>]"

text \<open>
  An environment for the examples, in the year 2024: the URL parser on the one site URL of
  the examples, an exact timer, and an HTTP client that answers every request with status
  200 and the body \<open>body\<close>.
\<close>

definition env_answering :: "string \<Rightarrow> env" where
  "env_answering body =
     \<lparr>newURL = (\<lambda>s. if s = ''https://example.com''
                     then Some \<lparr>protocol = ''https:'', hostname = ''example.com'', port = ''''\<rparr>
                     else None),
      dateNow = 1704067200000,
      setTimeout = (\<lambda>w. w),
      getFullYear = 2024,
      axiosGet = (\<lambda>endpoint params. Inr \<lparr>status = 200, data = body\<rparr>),
      parseStringPromise = xml2js_examples\<rparr>"

text \<open>
  The same environment with an HTTP client that fails on every request; its error
  tells the request it was given.
\<close>

definition env_refusing :: env where
  "env_refusing =
     (env_answering [])
       \<lparr>axiosGet := (\<lambda>endpoint params.
          Inl (Error (endpoint @ ''?sFromDate='' @ sFromDate params
                      @ ''&sToDate='' @ sToDate params)))\<rparr>"

section \<open>Properties of the council matcher\<close>

declare numToString.simps [simp del]

lemma set_insert_cmp: "set (insert_cmp cmp x ys) = insert x (set ys)"
  by (induction ys) auto

lemma set_sort_cmp: "set (sort_cmp cmp xs) = set xs"
  by (induction xs) (auto simp: sort_cmp_def set_insert_cmp)

lemma sorted_insert_cmp:
  "sorted_wrt (\<lambda>a b. score a \<ge> score b) ys \<Longrightarrow>
   sorted_wrt (\<lambda>a b. score a \<ge> score b) (insert_cmp (\<lambda>a b. score b - score a) x ys)"
  by (induction ys) (auto simp: set_insert_cmp)

lemma sorted_sort_cmp:
  "sorted_wrt (\<lambda>a b. score a \<ge> score b) (sort_cmp (\<lambda>a b. score b - score a) xs)"
  by (induction xs) (auto simp: sort_cmp_def sorted_insert_cmp)

lemma trim_whitespace:
  assumes "\<forall>c\<in>set q. isWhitespace c"
  shows "trim q = []"
  using assms by (auto simp: trim_def dest: set_dropWhileD)

text \<open>The only exception of \<open>calculateSimilarity\<close> is the \<open>TypeError\<close> of its call.\<close>

lemma calculateSimilarity_error: "calculateSimilarity q c = Inl e \<Longrightarrow> e = TypeError"
  by (auto simp: calculateSimilarity_def Let_def split: if_splits)

lemma calculateSimilarity_throws:
  assumes "toLowerCase q \<noteq> toLowerCase c"
    "\<not> includes_s (toLowerCase c) (toLowerCase q)" "\<not> includes_s (toLowerCase q) (toLowerCase c)"
  shows "calculateSimilarity q c = Inl TypeError"
  using assms by (simp add: calculateSimilarity_def Let_def)

lemma matchesLoop_throws:
  assumes "\<exists>c \<in> set cs. calculateSimilarity q (council c) = Inl TypeError"
  shows "matchesLoop q m acc cs = Inl TypeError"
  using assms
proof (induction cs arbitrary: acc)
  case Nil
  then show ?case by simp
next
  case (Cons c cs)
  show ?case
  proof (cases "calculateSimilarity q (council c)")
    case (Inl e)
    then show ?thesis
      using calculateSimilarity_error [of q "council c" e] by simp
  next
    case (Inr s)
    with Cons.prems have "\<exists>c \<in> set cs. calculateSimilarity q (council c) = Inl TypeError"
      by auto
    then show ?thesis
      using Inr Cons.IH by simp
  qed
qed

lemma matchesLoop_min:
  assumes "matchesLoop q m acc cs = Inr ms" "\<forall>x \<in> set acc. score x \<ge> m"
  shows "\<forall>x \<in> set ms. score x \<ge> m"
  using assms
proof (induction cs arbitrary: acc)
  case Nil
  then show ?case by simp
next
  case (Cons c cs)
  show ?case
  proof (cases "calculateSimilarity q (council c)")
    case (Inl e)
    then show ?thesis
      using Cons.prems(1) by simp
  next
    case (Inr s)
    let ?acc = "if s \<ge> m
      then acc @ [\<lparr>mcouncil = c, score = s, confidence = getConfidence s\<rparr>] else acc"
    have loop: "matchesLoop q m ?acc cs = Inr ms"
      using Cons.prems(1) Inr by simp
    have "\<forall>x \<in> set ?acc. score x \<ge> m"
      using Cons.prems(2) by simp
    then show ?thesis
      using Cons.IH [OF loop] by blast
  qed
qed

lemma findMatches_returned:
  assumes "findMatches cs q m = Inr ms"
  shows "sorted_wrt (\<lambda>a b. score a \<ge> score b) ms \<and> (\<forall>x \<in> set ms. score x \<ge> m)"
proof (cases "q = [] \<or> length (trim q) = 0")
  case True
  then show ?thesis
    using assms by (auto simp: findMatches_def)
next
  case False
  then obtain matches where loop: "matchesLoop q m [] cs = Inr matches"
    and ms: "ms = sort_cmp (\<lambda>a b. score b - score a) matches"
    using assms by (auto simp: findMatches_def split: sum.splits)
  have "\<forall>x \<in> set matches. score x \<ge> m"
    using matchesLoop_min [OF loop] by simp
  then show ?thesis
    by (simp add: ms sorted_sort_cmp set_sort_cmp)
qed

text \<open>
  Claim C7, as far as the code goes. Whenever \<open>findMatches\<close> returns, its matches are
  in order of non-increasing score and every score is at least the minimum; for a query
  that is empty or consists of white space it returns the empty list, whatever the
  minimum score. But for any other query it throws a \<open>TypeError\<close> as soon as one
  council's name, in lower case, is neither equal to the query nor contains it nor is
  contained in it: the score of that council is to come from \<open>levenshtein\<close>, which the
  import leaves undefined.
\<close>

theorem findMatches_throws_on_distance_branch:
  "(trim q \<noteq> []
    \<and> (\<exists>c \<in> set cs. toLowerCase q \<noteq> toLowerCase (council c)
          \<and> \<not> includes_s (toLowerCase (council c)) (toLowerCase q)
          \<and> \<not> includes_s (toLowerCase q) (toLowerCase (council c)))
    \<longrightarrow> findMatches cs q m = Inl TypeError)
   \<and> (findMatches cs q m = Inr ms \<longrightarrow>
        sorted_wrt (\<lambda>a b. score a \<ge> score b) ms \<and> (\<forall>x \<in> set ms. score x \<ge> m))
   \<and> ((\<forall>c \<in> set q. isWhitespace c) \<longrightarrow> findMatches cs q m = Inr [])"
proof (intro conjI impI)
  assume a: "trim q \<noteq> []
    \<and> (\<exists>c \<in> set cs. toLowerCase q \<noteq> toLowerCase (council c)
          \<and> \<not> includes_s (toLowerCase (council c)) (toLowerCase q)
          \<and> \<not> includes_s (toLowerCase q) (toLowerCase (council c)))"
  then have "\<exists>c \<in> set cs. calculateSimilarity q (council c) = Inl TypeError"
    using calculateSimilarity_throws by blast
  then have "matchesLoop q m [] cs = Inl TypeError"
    by (rule matchesLoop_throws)
  moreover from a have "q \<noteq> []"
    by (auto simp: trim_def)
  ultimately show "findMatches cs q m = Inl TypeError"
    using a by (simp add: findMatches_def)
next
  assume "findMatches cs q m = Inr ms"
  then show "sorted_wrt (\<lambda>a b. score a \<ge> score b) ms"
    using findMatches_returned by blast
next
  assume "findMatches cs q m = Inr ms"
  then show "\<forall>x \<in> set ms. score x \<ge> m"
    using findMatches_returned by blast
next
  assume "\<forall>c \<in> set q. isWhitespace c"
  then show "findMatches cs q m = Inr []"
    by (simp add: findMatches_def trim_whitespace)
qed

lemma york_kent_example:
  "trim ''york'' \<noteq> []
    \<and> (\<exists>c \<in> set councils_example. toLowerCase ''york'' \<noteq> toLowerCase (council c)
          \<and> \<not> includes_s (toLowerCase (council c)) (toLowerCase ''york'')
          \<and> \<not> includes_s (toLowerCase ''york'') (toLowerCase (council c)))"
  by code_simp

lemma york_only_example:
  "findMatches [\<lparr>council = ''York City'', url = ''https://york.example'',
                 region = ''Yorkshire'', ctype = ''Unitary''\<rparr>] ''york'' (3 / 10)
   = Inr [\<lparr>mcouncil = \<lparr>council = ''York City'', url = ''https://york.example'',
                          region = ''Yorkshire'', ctype = ''Unitary''\<rparr>,
           score = 9 / 10, confidence = High\<rparr>]"
  by code_simp

lemma whitespace_example: "\<forall>c \<in> set ''   ''. isWhitespace c"
  by code_simp

theorem findMatches_throws_on_distance_branch_witness:
  "findMatches councils_example ''york'' (3 / 10) = Inl TypeError
   \<and> findMatches councils_example ''   '' 0 = Inr []
   \<and> (3 / 10 :: real) \<le> 9 / 10"
proof -
  have throws: "findMatches councils_example ''york'' (3 / 10) = Inl TypeError"
    using findMatches_throws_on_distance_branch
      [THEN conjunct1, THEN mp, OF york_kent_example] .
  have blank: "findMatches councils_example ''   '' 0 = Inr []"
    using findMatches_throws_on_distance_branch
      [THEN conjunct2, THEN conjunct2, THEN mp, OF whitespace_example] .
  have "3 / 10 \<le> score \<lparr>mcouncil = \<lparr>council = ''York City'', url = ''https://york.example'',
                          region = ''Yorkshire'', ctype = ''Unitary''\<rparr>,
           score = 9 / 10, confidence = High\<rparr>"
    using findMatches_throws_on_distance_branch
      [THEN conjunct2, THEN conjunct1, THEN mp, OF york_only_example]
    by simp
  then have "(3 / 10 :: real) \<le> 9 / 10"
    by simp
  with throws blank show ?thesis
    by (intro conjI)
qed

text \<open>
  Claim C8. The tier of a score is Exact exactly from 0.95 on, High exactly on
  [0.8, 0.95), Medium exactly on [0.6, 0.8) and Low exactly below 0.6; the tier grows
  with the score; and the six boundary scores of the specification get the tiers it
  names. This holds for every real score, in [0, 1] or not.
\<close>

theorem getConfidence_tiers:
  "(getConfidence s = Exact \<longleftrightarrow> s \<ge> 0.95)
   \<and> (getConfidence s = High \<longleftrightarrow> 0.8 \<le> s \<and> s < 0.95)
   \<and> (getConfidence s = Medium \<longleftrightarrow> 0.6 \<le> s \<and> s < 0.8)
   \<and> (getConfidence s = Low \<longleftrightarrow> s < 0.6)
   \<and> (s \<le> t \<longrightarrow> tierRank (getConfidence s) \<le> tierRank (getConfidence t))
   \<and> getConfidence 0.95 = Exact \<and> getConfidence 0.94999 = High
   \<and> getConfidence 0.8 = High \<and> getConfidence 0.79999 = Medium
   \<and> getConfidence 0.6 = Medium \<and> getConfidence 0.59999 = Low"
  by (simp add: getConfidence_def)

theorem getConfidence_tiers_witness:
  "(0.7 :: real) \<le> 0.9 \<and> getConfidence 0.7 = Medium \<and> getConfidence 0.9 = High
   \<and> tierRank (getConfidence 0.7) \<le> tierRank (getConfidence 0.9)"
  using getConfidence_tiers [of "0.7" "0.9"] getConfidence_tiers [of "0.9" "0.9"]
  by simp

text \<open>
  Claim C9. The similarity of two strings that are equal up to the case of their letters
  is 1: the function returns 1 and throws nothing, whatever the import of the distance
  is worth; so the similarity of a string to itself is 1, and that of the empty string
  to itself.
\<close>

theorem calculateSimilarity_equal_ignoring_case:
  "(toLowerCase q = toLowerCase c \<longrightarrow> calculateSimilarity q c = Inr 1)
   \<and> calculateSimilarity s s = Inr 1
   \<and> calculateSimilarity [] [] = Inr 1"
  by (simp add: calculateSimilarity_def)

theorem calculateSimilarity_equal_ignoring_case_witness:
  "toLowerCase ''Leeds'' = toLowerCase ''LEEDS''
   \<and> calculateSimilarity ''Leeds'' ''LEEDS'' = Inr 1
   \<and> calculateSimilarity ''York'' ''York'' = Inr 1
   \<and> calculateSimilarity [] [] = Inr 1"
proof -
  have "toLowerCase ''Leeds'' = toLowerCase ''LEEDS''"
    by code_simp
  then show ?thesis
    using calculateSimilarity_equal_ignoring_case [of "''Leeds''" "''LEEDS''" "''York''"]
    by simp
qed

section \<open>Properties of the endpoint resolver\<close>

lemma replace_s_absent: "\<not> includes_s u ''?WSDL'' \<Longrightarrow> replace_s ''?WSDL'' [] u = u"
  by (induction u) auto

text \<open>An occurrence of \<open>?WSDL\<close> at the start of \<open>u @ ''?WSDL''\<close> lies within \<open>u\<close>.\<close>

lemma startsWith_span:
  assumes "startsWith (u @ ''?WSDL'') ''?WSDL''" "u \<noteq> []"
  shows "startsWith u ''?WSDL''"
proof -
  obtain a u1 where u: "u = a # u1"
    using assms(2) by (cases u) auto
  show ?thesis
  proof (cases u1)
    case Nil
    then show ?thesis using assms(1) u by (simp add: startsWith_def)
  next
    case (Cons b u2)
    note u1 = this
    show ?thesis
    proof (cases u2)
      case Nil
      then show ?thesis using assms(1) u u1 by (simp add: startsWith_def)
    next
      case (Cons c u3)
      note u2 = this
      show ?thesis
      proof (cases u3)
        case Nil
        then show ?thesis using assms(1) u u1 u2 by (simp add: startsWith_def)
      next
        case (Cons d u4)
        note u3 = this
        show ?thesis
        proof (cases u4)
          case Nil
          then show ?thesis using assms(1) u u1 u2 u3 by (simp add: startsWith_def)
        next
          case (Cons e u5)
          then show ?thesis using assms(1) u u1 u2 u3 by (simp add: startsWith_def)
        qed
      qed
    qed
  qed
qed

lemma replace_s_trailing:
  "\<not> includes_s u ''?WSDL'' \<Longrightarrow> replace_s ''?WSDL'' [] (u @ ''?WSDL'') = u"
proof (induction u)
  case Nil
  then show ?case by (simp add: startsWith_def)
next
  case (Cons c u)
  have "\<not> startsWith ((c # u) @ ''?WSDL'') ''?WSDL''"
    using startsWith_span [of "c # u"] Cons.prems by auto
  then show ?case using Cons by simp
qed

lemma strip_wsdl:
  assumes "siteUrl = u @ wsdl" "wsdl = [] \<or> wsdl = ''?WSDL''" "\<not> includes_s u ''?WSDL''"
  shows "replace_s ''?WSDL'' [] siteUrl = u"
  using assms replace_s_absent replace_s_trailing by auto

lemma split_s_scheme:
  "CHR '':'' \<notin> set a \<Longrightarrow>
   split_s ''://'' acc (a @ ''://'' @ b) = (acc @ a) # split_s ''://'' [] b"
  by (induction a arbitrary: acc) (auto simp: startsWith_def)

lemma split_s_none: "\<not> includes_s s ''://'' \<Longrightarrow> split_s ''://'' acc s = [acc @ s]"
  by (induction s arbitrary: acc) auto

lemma split_s_host:
  "CHR ''/'' \<notin> set h \<Longrightarrow> rest = [] \<or> hd rest = CHR ''/'' \<Longrightarrow>
   hd (split_s ''/'' acc (h @ rest)) = acc @ h"
proof (induction h arbitrary: acc)
  case Nil
  then show ?case by (cases rest) (auto simp: startsWith_def)
next
  case (Cons c h)
  then show ?case by (auto simp: startsWith_def)
qed

lemma endsWith_append: "endsWith (pre @ suf) suf"
  by (simp add: endsWith_def)

lemma removeDemocracySuffix_plain: "removeDemocracySuffix (pre @ ''/democracy'') = pre"
  by (simp add: removeDemocracySuffix_def endsWith_def)

lemma removeDemocracySuffix_slash: "removeDemocracySuffix (pre @ ''/democracy/'') = pre"
  by (simp add: removeDemocracySuffix_def endsWith_def)

text \<open>The resolver as one chain of cases on the stripped URL.\<close>

lemma getEndpointUrl_unfold:
  assumes "replace_s ''?WSDL'' [] siteUrl = u" "base = removeTrailingSlash u"
  shows "getEndpointUrl siteUrl operation =
     (if includes_s base ''/mgWebService.asmx'' then base
      else if endsWith base ''/democracy'' \<or> endsWith base ''/democracy/''
      then removeDemocracySuffix base @ ''/democracy/mgWebService.asmx''
      else if length (split_s ''://'' [] base) = 2
      then ''https://'' @ hd (split_s ''/'' [] (split_s ''://'' [] base ! 1))
           @ ''/mgWebService.asmx''
      else ''https://'' @ removeHttpPrefix base @ ''/mgWebService.asmx'')
     @ ''/'' @ operation"
  using assms by (simp add: getEndpointUrl_def Let_def)

lemma domain_of_base:
  assumes "base = scheme @ ''://'' @ host @ path" "CHR '':'' \<notin> set scheme"
    "CHR ''/'' \<notin> set host" "path = [] \<or> hd path = CHR ''/''"
    "\<not> includes_s (host @ path) ''://''"
  shows "split_s ''://'' [] base = [scheme, host @ path]"
    and "hd (split_s ''/'' [] (split_s ''://'' [] base ! 1)) = host"
proof -
  show parts: "split_s ''://'' [] base = [scheme, host @ path]"
    using split_s_scheme [OF assms(2), of "[]" "host @ path"]
      split_s_none [OF assms(5), of "[]"] assms(1) by simp
  show "hd (split_s ''/'' [] (split_s ''://'' [] base ! 1)) = host"
    using assms(3,4) by (simp add: parts split_s_host)
qed

text \<open>
  Claim C1, as the code has it. Let the site URL be \<open>u\<close>, with no \<open>?WSDL\<close> in it,
  followed or not by \<open>?WSDL\<close>, and let \<open>base\<close> be \<open>u\<close> without one slash at its end.
  If \<open>base\<close> contains \<open>/mgWebService.asmx\<close>, the endpoint is \<open>base\<close>, a slash and the
  operation. Otherwise, if \<open>base\<close> ends in \<open>/democracy\<close> (or in \<open>/democracy/\<close>), the
  endpoint keeps the URL up to \<open>/democracy\<close> and appends \<open>/mgWebService.asmx\<close>, a slash
  and the operation. Otherwise, if \<open>base\<close> is a scheme, \<open>://\<close>, a host and a path,
  with no other \<open>://\<close> in it, the endpoint is \<open>https://\<close>, the host,
  \<open>/mgWebService.asmx\<close>, a slash and the operation: the path is dropped, and the scheme
  is https whatever the scheme of the input.
\<close>

theorem getEndpointUrl_resolution:
  assumes "siteUrl = u @ wsdl" "wsdl = [] \<or> wsdl = ''?WSDL''" "\<not> includes_s u ''?WSDL''"
    and "base = removeTrailingSlash u"
  shows "(includes_s base ''/mgWebService.asmx'' \<longrightarrow>
            getEndpointUrl siteUrl operation = base @ ''/'' @ operation)
     \<and> (\<not> includes_s base ''/mgWebService.asmx''
          \<and> (base = pre @ ''/democracy'' \<or> base = pre @ ''/democracy/'') \<longrightarrow>
            getEndpointUrl siteUrl operation
              = pre @ ''/democracy/mgWebService.asmx'' @ ''/'' @ operation)
     \<and> (\<not> includes_s base ''/mgWebService.asmx''
          \<and> \<not> endsWith base ''/democracy'' \<and> \<not> endsWith base ''/democracy/''
          \<and> base = scheme @ ''://'' @ host @ path
          \<and> CHR '':'' \<notin> set scheme \<and> CHR ''/'' \<notin> set host
          \<and> (path = [] \<or> hd path = CHR ''/'') \<and> \<not> includes_s (host @ path) ''://'' \<longrightarrow>
            getEndpointUrl siteUrl operation
              = ''https://'' @ host @ ''/mgWebService.asmx'' @ ''/'' @ operation)"
proof -
  have u: "replace_s ''?WSDL'' [] siteUrl = u"
    using assms(1-3) by (rule strip_wsdl)
  note unfold = getEndpointUrl_unfold [OF u assms(4), of operation]
  have a: "getEndpointUrl siteUrl operation = base @ ''/'' @ operation"
    if "includes_s base ''/mgWebService.asmx''"
    using that unfold by simp
  have b: "getEndpointUrl siteUrl operation
             = pre @ ''/democracy/mgWebService.asmx'' @ ''/'' @ operation"
    if "\<not> includes_s base ''/mgWebService.asmx''"
      and "base = pre @ ''/democracy'' \<or> base = pre @ ''/democracy/''"
  proof -
    from that(2) have "endsWith base ''/democracy'' \<or> endsWith base ''/democracy/''"
      using endsWith_append by auto
    moreover from that(2) have "removeDemocracySuffix base = pre"
      using removeDemocracySuffix_plain removeDemocracySuffix_slash by auto
    ultimately show ?thesis
      using that(1) unfold by simp
  qed
  have c: "getEndpointUrl siteUrl operation
             = ''https://'' @ host @ ''/mgWebService.asmx'' @ ''/'' @ operation"
    if "\<not> includes_s base ''/mgWebService.asmx''"
      and "\<not> endsWith base ''/democracy''" "\<not> endsWith base ''/democracy/''"
      and "base = scheme @ ''://'' @ host @ path"
      and "CHR '':'' \<notin> set scheme" "CHR ''/'' \<notin> set host"
      and "path = [] \<or> hd path = CHR ''/''" "\<not> includes_s (host @ path) ''://''"
  proof -
    have "split_s ''://'' [] base = [scheme, host @ path]"
      and "hd (split_s ''/'' [] (split_s ''://'' [] base ! 1)) = host"
      using domain_of_base [OF that(4-8)] by auto
    then show ?thesis
      using that(1-3) unfold by simp
  qed
  from a b c show ?thesis by blast
qed

theorem getEndpointUrl_resolution_witness:
  "getEndpointUrl ''http://example.com/foo/?WSDL'' ''GetMeetings''
     = ''https://example.com/mgWebService.asmx/GetMeetings''
   \<and> getEndpointUrl ''https://example.com/democracy/?WSDL'' ''GetMeetings''
     = ''https://example.com/democracy/mgWebService.asmx/GetMeetings''
   \<and> getEndpointUrl ''https://example.com/mgWebService.asmx?WSDL'' ''GetMeetings''
     = ''https://example.com/mgWebService.asmx/GetMeetings''"
proof -
  have w: "''?WSDL'' = [] \<or> ''?WSDL'' = ''?WSDL''" by simp
  have 1: "getEndpointUrl ''http://example.com/foo/?WSDL'' ''GetMeetings''
     = ''https://example.com/mgWebService.asmx/GetMeetings''"
  proof -
    have h1: "''http://example.com/foo/?WSDL'' = ''http://example.com/foo/'' @ ''?WSDL''"
      by simp
    have h3: "\<not> includes_s ''http://example.com/foo/'' ''?WSDL''"
      by code_simp
    have h4: "''http://example.com/foo'' = removeTrailingSlash ''http://example.com/foo/''"
      by code_simp
    have h5: "\<not> includes_s ''http://example.com/foo'' ''/mgWebService.asmx''
          \<and> \<not> endsWith ''http://example.com/foo'' ''/democracy''
          \<and> \<not> endsWith ''http://example.com/foo'' ''/democracy/''
          \<and> ''http://example.com/foo'' = ''http'' @ ''://'' @ ''example.com'' @ ''/foo''
          \<and> CHR '':'' \<notin> set ''http'' \<and> CHR ''/'' \<notin> set ''example.com''
          \<and> (''/foo'' = [] \<or> hd ''/foo'' = CHR ''/'')
          \<and> \<not> includes_s (''example.com'' @ ''/foo'') ''://''"
      by code_simp
    have "getEndpointUrl ''http://example.com/foo/?WSDL'' ''GetMeetings''
       = ''https://'' @ ''example.com'' @ ''/mgWebService.asmx'' @ ''/'' @ ''GetMeetings''"
      using getEndpointUrl_resolution
        [OF h1 w h3 h4, THEN conjunct2, THEN conjunct2, THEN mp, OF h5] .
    then show ?thesis by simp
  qed
  have 2: "getEndpointUrl ''https://example.com/democracy/?WSDL'' ''GetMeetings''
     = ''https://example.com/democracy/mgWebService.asmx/GetMeetings''"
  proof -
    have h1: "''https://example.com/democracy/?WSDL''
                = ''https://example.com/democracy/'' @ ''?WSDL''"
      by simp
    have h3: "\<not> includes_s ''https://example.com/democracy/'' ''?WSDL''"
      by code_simp
    have h4: "''https://example.com/democracy''
                = removeTrailingSlash ''https://example.com/democracy/''"
      by code_simp
    have h5: "\<not> includes_s ''https://example.com/democracy'' ''/mgWebService.asmx''
       \<and> (''https://example.com/democracy'' = ''https://example.com'' @ ''/democracy''
            \<or> ''https://example.com/democracy'' = ''https://example.com'' @ ''/democracy/'')"
      by code_simp
    have "getEndpointUrl ''https://example.com/democracy/?WSDL'' ''GetMeetings''
       = ''https://example.com'' @ ''/democracy/mgWebService.asmx'' @ ''/'' @ ''GetMeetings''"
      using getEndpointUrl_resolution
        [OF h1 w h3 h4, THEN conjunct2, THEN conjunct1, THEN mp, OF h5] .
    then show ?thesis by simp
  qed
  have 3: "getEndpointUrl ''https://example.com/mgWebService.asmx?WSDL'' ''GetMeetings''
     = ''https://example.com/mgWebService.asmx/GetMeetings''"
  proof -
    have h1: "''https://example.com/mgWebService.asmx?WSDL''
                = ''https://example.com/mgWebService.asmx'' @ ''?WSDL''"
      by simp
    have h3: "\<not> includes_s ''https://example.com/mgWebService.asmx'' ''?WSDL''"
      by code_simp
    have h4: "''https://example.com/mgWebService.asmx''
                = removeTrailingSlash ''https://example.com/mgWebService.asmx''"
      by code_simp
    have h5: "includes_s ''https://example.com/mgWebService.asmx'' ''/mgWebService.asmx''"
      by code_simp
    have "getEndpointUrl ''https://example.com/mgWebService.asmx?WSDL'' ''GetMeetings''
       = ''https://example.com/mgWebService.asmx'' @ ''/'' @ ''GetMeetings''"
      using getEndpointUrl_resolution [OF h1 w h3 h4, THEN conjunct1, THEN mp, OF h5] .
    then show ?thesis by simp
  qed
  from 1 2 3 show ?thesis by (intro conjI)
qed

text \<open>
  Claim C1 as it is stated fails. For the site URL \<open>http://example.com/foo\<close>, whose
  scheme is http, the endpoint is not built from the scheme and the host of the input:
  its scheme is https. And for a site URL that holds \<open>://\<close> twice the path is not
  dropped: \<open>/mgWebService.asmx\<close> is appended to the whole URL.
\<close>

theorem getEndpointUrl_forces_https:
  "getEndpointUrl ''http://example.com/foo'' ''GetMeetings''
     = ''https://example.com/mgWebService.asmx/GetMeetings''
   \<and> getEndpointUrl ''http://example.com/foo'' ''GetMeetings''
     \<noteq> ''http'' @ ''://'' @ ''example.com'' @ ''/mgWebService.asmx'' @ ''/'' @ ''GetMeetings''
   \<and> getEndpointUrl ''https://a.example/r?u=http://b.example'' ''GetMeetings''
     = ''https://a.example/r?u=http://b.example/mgWebService.asmx/GetMeetings''"
  by code_simp

section \<open>Properties of the rate limiter\<close>

lemma checkRateLimit_recorded:
  "fst (checkRateLimit timer rl u now) (hostname u) = Some (snd (checkRateLimit timer rl u now))"
  by (simp add: checkRateLimit_def Let_def)

lemma checkRateLimit_frame:
  "d \<noteq> hostname u \<Longrightarrow> fst (checkRateLimit timer rl u now) d = rl d"
  by (simp add: checkRateLimit_def Let_def)

lemma checkRateLimit_local:
  "rl (hostname u) = rl' (hostname u) \<Longrightarrow>
   snd (checkRateLimit timer rl u now) = snd (checkRateLimit timer rl' u now)"
  by (simp add: checkRateLimit_def Let_def lastRequestOf_def)

lemma checkRateLimit_waits:
  assumes "\<And>w. w \<le> timer w" "rl (hostname u) = Some t" "now - t < rateLimitMs"
  shows "snd (checkRateLimit timer rl u now) - now \<ge> rateLimitMs - (now - t)"
  using assms(1) [of "rateLimitMs - (now - t)"] assms(2,3)
  by (simp add: checkRateLimit_def Let_def lastRequestOf_def)

text \<open>
  Claim C4, as the code has it: the limiter is keyed by the host name of the URL, not by
  its origin. Let the timer take at least the time it is asked for. When a request for
  a URL is granted at \<open>t1\<close> and the next request for a URL of the same host name is made
  at \<open>now2\<close>, less than 1000 ms after \<open>t1\<close>, the time recorded for the second request is
  at least \<open>1000 - (now2 - t1)\<close> after \<open>now2\<close>. A request for a URL of another host name
  is granted at the time it would be granted without the first request, and the first
  request leaves the entry of that host name as it was.
\<close>

theorem checkRateLimit_per_hostname:
  assumes "\<And>w. w \<le> timer w"
  shows "(hostname u2 = hostname u1
          \<and> checkRateLimit timer rl u1 now1 = (rl1, t1) \<and> now2 - t1 < rateLimitMs
          \<and> checkRateLimit timer rl1 u2 now2 = (rl2, t2)
          \<longrightarrow> t2 - now2 \<ge> rateLimitMs - (now2 - t1) \<and> rl2 (hostname u2) = Some t2)
     \<and> (hostname u2 \<noteq> hostname u1 \<longrightarrow>
          snd (checkRateLimit timer (fst (checkRateLimit timer rl u1 now1)) u2 now2)
            = snd (checkRateLimit timer rl u2 now2)
          \<and> fst (checkRateLimit timer rl u1 now1) (hostname u2) = rl (hostname u2))"
proof -
  have same: "t2 - now2 \<ge> rateLimitMs - (now2 - t1) \<and> rl2 (hostname u2) = Some t2"
    if "hostname u2 = hostname u1" "checkRateLimit timer rl u1 now1 = (rl1, t1)"
      "now2 - t1 < rateLimitMs" "checkRateLimit timer rl1 u2 now2 = (rl2, t2)"
  proof -
    have "rl1 (hostname u2) = Some t1"
      using checkRateLimit_recorded [of timer rl u1 now1] that(1,2) by simp
    then have "snd (checkRateLimit timer rl1 u2 now2) - now2 \<ge> rateLimitMs - (now2 - t1)"
      using checkRateLimit_waits [OF assms] that(3) by blast
    moreover have "rl2 (hostname u2) = Some t2"
      using checkRateLimit_recorded [of timer rl1 u2 now2] that(4) by simp
    ultimately show ?thesis
      using that(4) by simp
  qed
  have other: "snd (checkRateLimit timer (fst (checkRateLimit timer rl u1 now1)) u2 now2)
            = snd (checkRateLimit timer rl u2 now2)
          \<and> fst (checkRateLimit timer rl u1 now1) (hostname u2) = rl (hostname u2)"
    if "hostname u2 \<noteq> hostname u1"
    using that checkRateLimit_frame [of "hostname u2" u1 timer rl now1]
      checkRateLimit_local [of "fst (checkRateLimit timer rl u1 now1)" u2 rl timer now2]
    by simp
  from same other show ?thesis by blast
qed

theorem checkRateLimit_per_hostname_witness:
  "(\<forall>w::int. w \<le> w + 5)
   \<and> snd (checkRateLimit (\<lambda>w. w + 5)
            (fst (checkRateLimit (\<lambda>w. w + 5) Map.empty
                   \<lparr>protocol = ''https:'', hostname = ''example.com'', port = ''''\<rparr>
                   1704067200000))
            \<lparr>protocol = ''https:'', hostname = ''example.com'', port = ''''\<rparr> 1704067200300)
         - 1704067200300 \<ge> rateLimitMs - (1704067200300 - 1704067200000)
   \<and> snd (checkRateLimit (\<lambda>w. w + 5)
            (fst (checkRateLimit (\<lambda>w. w + 5) Map.empty
                   \<lparr>protocol = ''https:'', hostname = ''example.com'', port = ''''\<rparr>
                   1704067200000))
            \<lparr>protocol = ''https:'', hostname = ''example.org'', port = ''''\<rparr> 1704067200300)
       = 1704067200300"
proof -
  let ?timer = "\<lambda>w::int. w + 5"
  let ?com = "\<lparr>protocol = ''https:'', hostname = ''example.com'', port = ''''\<rparr>"
  let ?org = "\<lparr>protocol = ''https:'', hostname = ''example.org'', port = ''''\<rparr>"
  let ?first = "checkRateLimit ?timer Map.empty ?com 1704067200000"
  let ?second = "checkRateLimit ?timer (fst ?first) ?com 1704067200300"
  have timer: "\<And>w. w \<le> ?timer w"
    by simp
  have t1: "snd ?first = 1704067200000"
    by (simp add: checkRateLimit_def Let_def lastRequestOf_def rateLimitMs_def)
  have late: "1704067200300 - snd ?first < rateLimitMs"
    by (simp add: t1 rateLimitMs_def)
  have pre: "hostname ?com = hostname ?com
          \<and> ?first = (fst ?first, snd ?first) \<and> 1704067200300 - snd ?first < rateLimitMs
          \<and> ?second = (fst ?second, snd ?second)"
    by (intro conjI refl late prod.collapse [symmetric])
  have a: "snd ?second - 1704067200300 \<ge> rateLimitMs - (1704067200300 - snd ?first)"
    using checkRateLimit_per_hostname [OF timer, THEN conjunct1, THEN mp, OF pre] by blast
  have ne: "hostname ?org \<noteq> hostname ?com"
    by simp
  have "snd (checkRateLimit ?timer (fst ?first) ?org 1704067200300)
          = snd (checkRateLimit ?timer Map.empty ?org 1704067200300)"
    using checkRateLimit_per_hostname [OF timer, THEN conjunct2, THEN mp, OF ne] by blast
  also have "\<dots> = 1704067200300"
    by (simp add: checkRateLimit_def Let_def lastRequestOf_def rateLimitMs_def)
  finally have b:
    "snd (checkRateLimit ?timer (fst ?first) ?org 1704067200300) = 1704067200300" .
  from a b t1 show ?thesis by simp
qed

text \<open>
  Claim C4 as it is stated fails: \<open>http://example.com\<close> and \<open>https://example.com\<close>
  are two origins with one host name. With an exact timer, a request for the second at
  1704067200300 is granted at once when the limiter is empty, and 700 ms later when a
  request for the first was granted at 1704067200000.
\<close>

theorem checkRateLimit_origins_share_hostname:
  "origin \<lparr>protocol = ''http:'', hostname = ''example.com'', port = ''''\<rparr>
     \<noteq> origin \<lparr>protocol = ''https:'', hostname = ''example.com'', port = ''''\<rparr>
   \<and> snd (checkRateLimit (\<lambda>w. w) Map.empty
            \<lparr>protocol = ''https:'', hostname = ''example.com'', port = ''''\<rparr> 1704067200300)
       = 1704067200300
   \<and> snd (checkRateLimit (\<lambda>w. w)
            (fst (checkRateLimit (\<lambda>w. w) Map.empty
                   \<lparr>protocol = ''http:'', hostname = ''example.com'', port = ''''\<rparr>
                   1704067200000))
            \<lparr>protocol = ''https:'', hostname = ''example.com'', port = ''''\<rparr> 1704067200300)
       = 1704067201000"
  by (simp add: origin_def checkRateLimit_def Let_def lastRequestOf_def rateLimitMs_def)

section \<open>Properties of the meetings request\<close>

lemma given_None: "\<not> given None"
  by (simp add: given_def)

lemma meetingsParams_default:
  "\<not> (given fromDate \<and> given toDate) \<Longrightarrow>
   meetingsParams y cid fromDate toDate =
     \<lparr>lCommitteeId = cid, sFromDate = numToString y @ ''-01-01'',
      sToDate = numToString y @ ''-12-31''\<rparr>"
  by (auto simp: meetingsParams_def)

lemma meetingsParams_from_only:
  "meetingsParams y cid (Some f) None = meetingsParams y cid None None"
  by (simp add: meetingsParams_def given_def)

lemma meetingsParams_to_only:
  "meetingsParams y cid None (Some t) = meetingsParams y cid None None"
  by (simp add: meetingsParams_def given_def)

text \<open>The request that \<open>getMeetings\<close> sends, once the URL and the committee are there.\<close>

lemma getMeetings_request:
  "newURL e siteUrl = Some u \<Longrightarrow>
   snd (getMeetings e rl siteUrl (Some cid) fromDate toDate) =
     (case axiosGet e (getEndpointUrl siteUrl ''GetMeetings'')
             (meetingsParams (getFullYear e) cid fromDate toDate) of
        Inl err \<Rightarrow> Inl err
      | Inr response \<Rightarrow>
          handleApiResponse response (parseMeetingsResponse (parseStringPromise e)))"
  by (simp add: getMeetings_def Let_def)

lemma numToString_2024: "numToString 2024 = ''2024''"
  by code_simp

lemma numToString_four_digits:
  assumes "1000 \<le> y" "y < 10000"
  shows "length (numToString y) = 4"
proof -
  have "\<not> y < 10" "\<not> y div 10 < 10" "\<not> y div 10 div 10 < 10"
    "y div 10 div 10 div 10 < 10"
    using assms by auto
  then show ?thesis
    by (simp add: numToString.simps [of y] numToString.simps [of "y div 10"]
          numToString.simps [of "y div 10 div 10"]
          numToString.simps [of "y div 10 div 10 div 10"])
qed

lemma env_refusing_url:
  "newURL env_refusing ''https://example.com''
     = Some \<lparr>protocol = ''https:'', hostname = ''example.com'', port = ''''\<rparr>"
  by (simp add: env_refusing_def env_answering_def)

lemma endpoint_example:
  "getEndpointUrl ''https://example.com'' ''GetMeetings''
     = ''https://example.com/mgWebService.asmx/GetMeetings''"
  by code_simp

text \<open>
  Claim C5. With no dates, the parameters of the meetings request are the committee,
  \<open>sFromDate\<close> the current year followed by \<open>-01-01\<close> and \<open>sToDate\<close> the current year
  followed by \<open>-12-31\<close>; in 2024 they are \<open>2024-01-01\<close> and \<open>2024-12-31\<close>; and
  \<open>getMeetings\<close>, for a URL that parses and a committee, hands these parameters to the
  HTTP client. A year from 1000 to 9999 is written with four digits.
\<close>

theorem getMeetings_default_dates:
  "meetingsParams y cid None None =
     \<lparr>lCommitteeId = cid, sFromDate = numToString y @ ''-01-01'',
      sToDate = numToString y @ ''-12-31''\<rparr>
   \<and> meetingsParams 2024 cid None None =
     \<lparr>lCommitteeId = cid, sFromDate = ''2024-01-01'', sToDate = ''2024-12-31''\<rparr>
   \<and> (newURL e siteUrl = Some u \<longrightarrow>
        snd (getMeetings e rl siteUrl (Some cid) None None) =
          (case axiosGet e (getEndpointUrl siteUrl ''GetMeetings'')
                  \<lparr>lCommitteeId = cid, sFromDate = numToString (getFullYear e) @ ''-01-01'',
                   sToDate = numToString (getFullYear e) @ ''-12-31''\<rparr> of
             Inl err \<Rightarrow> Inl err
           | Inr response \<Rightarrow>
               handleApiResponse response (parseMeetingsResponse (parseStringPromise e))))
   \<and> (1000 \<le> y \<and> y < 10000 \<longrightarrow> length (numToString y) = 4)"
  by (simp add: meetingsParams_default given_None getMeetings_request numToString_2024
        numToString_four_digits)

theorem getMeetings_default_dates_witness:
  "snd (getMeetings env_refusing Map.empty ''https://example.com'' (Some 138) None None)
     = Inl (Error ''https://example.com/mgWebService.asmx/GetMeetings?sFromDate=2024-01-01&sToDate=2024-12-31'')"
  using getMeetings_default_dates [of 2024 138 env_refusing "''https://example.com''" _ Map.empty]
    env_refusing_url endpoint_example
  by (simp add: env_refusing_def env_answering_def numToString_2024)

text \<open>
  Claim C10. When the caller of \<open>getMeetings\<close> gives one of \<open>fromDate\<close> and
  \<open>toDate\<close> and leaves the other out, the date given is dropped: \<open>sFromDate\<close> is the
  current year followed by \<open>-01-01\<close> and \<open>sToDate\<close> the current year followed by
  \<open>-12-31\<close>, in 2024 \<open>2024-01-01\<close> and \<open>2024-12-31\<close>; \<open>getMeetings\<close>, for a URL
  that parses and a committee, hands these parameters to the HTTP client; and the
  parameters and the whole result of \<open>getMeetings\<close> are those of a call with no dates.
\<close>

theorem getMeetings_partial_range_defaults:
  "meetingsParams y cid (Some f) None =
     \<lparr>lCommitteeId = cid, sFromDate = numToString y @ ''-01-01'',
      sToDate = numToString y @ ''-12-31''\<rparr>
   \<and> meetingsParams y cid None (Some t) =
     \<lparr>lCommitteeId = cid, sFromDate = numToString y @ ''-01-01'',
      sToDate = numToString y @ ''-12-31''\<rparr>
   \<and> meetingsParams 2024 cid (Some f) None =
     \<lparr>lCommitteeId = cid, sFromDate = ''2024-01-01'', sToDate = ''2024-12-31''\<rparr>
   \<and> meetingsParams 2024 cid None (Some t) =
     \<lparr>lCommitteeId = cid, sFromDate = ''2024-01-01'', sToDate = ''2024-12-31''\<rparr>
   \<and> (newURL e siteUrl = Some u \<longrightarrow>
        snd (getMeetings e rl siteUrl (Some cid) (Some f) None) =
          (case axiosGet e (getEndpointUrl siteUrl ''GetMeetings'')
                  \<lparr>lCommitteeId = cid, sFromDate = numToString (getFullYear e) @ ''-01-01'',
                   sToDate = numToString (getFullYear e) @ ''-12-31''\<rparr> of
             Inl err \<Rightarrow> Inl err
           | Inr response \<Rightarrow>
               handleApiResponse response (parseMeetingsResponse (parseStringPromise e)))
        \<and> snd (getMeetings e rl siteUrl (Some cid) None (Some t)) =
          (case axiosGet e (getEndpointUrl siteUrl ''GetMeetings'')
                  \<lparr>lCommitteeId = cid, sFromDate = numToString (getFullYear e) @ ''-01-01'',
                   sToDate = numToString (getFullYear e) @ ''-12-31''\<rparr> of
             Inl err \<Rightarrow> Inl err
           | Inr response \<Rightarrow>
               handleApiResponse response (parseMeetingsResponse (parseStringPromise e))))
   \<and> meetingsParams y cid (Some f) None = meetingsParams y cid None None
   \<and> meetingsParams y cid None (Some t) = meetingsParams y cid None None
   \<and> getMeetings e rl siteUrl committeeId (Some f) None
       = getMeetings e rl siteUrl committeeId None None
   \<and> getMeetings e rl siteUrl committeeId None (Some t)
       = getMeetings e rl siteUrl committeeId None None"
proof -
  have from_only: "meetingsParams y' cid (Some f) None =
     \<lparr>lCommitteeId = cid, sFromDate = numToString y' @ ''-01-01'',
      sToDate = numToString y' @ ''-12-31''\<rparr>" for y'
    by (rule meetingsParams_default) (simp add: given_def)
  have to_only: "meetingsParams y' cid None (Some t) =
     \<lparr>lCommitteeId = cid, sFromDate = numToString y' @ ''-01-01'',
      sToDate = numToString y' @ ''-12-31''\<rparr>" for y'
    by (rule meetingsParams_default) (simp add: given_def)
  have sent: "snd (getMeetings e rl siteUrl (Some cid) (Some f) None) =
          (case axiosGet e (getEndpointUrl siteUrl ''GetMeetings'')
                  \<lparr>lCommitteeId = cid, sFromDate = numToString (getFullYear e) @ ''-01-01'',
                   sToDate = numToString (getFullYear e) @ ''-12-31''\<rparr> of
             Inl err \<Rightarrow> Inl err
           | Inr response \<Rightarrow>
               handleApiResponse response (parseMeetingsResponse (parseStringPromise e)))
        \<and> snd (getMeetings e rl siteUrl (Some cid) None (Some t)) =
          (case axiosGet e (getEndpointUrl siteUrl ''GetMeetings'')
                  \<lparr>lCommitteeId = cid, sFromDate = numToString (getFullYear e) @ ''-01-01'',
                   sToDate = numToString (getFullYear e) @ ''-12-31''\<rparr> of
             Inl err \<Rightarrow> Inl err
           | Inr response \<Rightarrow>
               handleApiResponse response (parseMeetingsResponse (parseStringPromise e)))"
    if "newURL e siteUrl = Some u"
    using getMeetings_request [OF that] from_only to_only by simp
  have same: "getMeetings e rl siteUrl committeeId (Some f) None
       = getMeetings e rl siteUrl committeeId None None
   \<and> getMeetings e rl siteUrl committeeId None (Some t)
       = getMeetings e rl siteUrl committeeId None None"
    by (simp add: meetingsParams_from_only meetingsParams_to_only getMeetings_def Let_def
          split: option.split)
  show ?thesis
    using from_only [of y] to_only [of y] from_only [of 2024] to_only [of 2024] sent same
    by (simp add: meetingsParams_from_only meetingsParams_to_only numToString_2024)
qed

theorem getMeetings_partial_range_defaults_witness:
  "snd (getMeetings env_refusing Map.empty ''https://example.com'' (Some 138)
          (Some ''2023-06-01'') None)
     = Inl (Error ''https://example.com/mgWebService.asmx/GetMeetings?sFromDate=2024-01-01&sToDate=2024-12-31'')
   \<and> snd (getMeetings env_refusing Map.empty ''https://example.com'' (Some 138)
          None (Some ''2023-06-30''))
     = Inl (Error ''https://example.com/mgWebService.asmx/GetMeetings?sFromDate=2024-01-01&sToDate=2024-12-31'')"
proof -
  note sent = getMeetings_partial_range_defaults
    [where e = env_refusing and siteUrl = "''https://example.com''" and cid = 138
       and f = "''2023-06-01''" and t = "''2023-06-30''" and rl = Map.empty,
     THEN conjunct2, THEN conjunct2, THEN conjunct2, THEN conjunct2, THEN conjunct1,
     THEN mp, OF env_refusing_url]
  have year: "getFullYear env_refusing = 2024"
    by (simp add: env_refusing_def env_answering_def)
  have refuse: "axiosGet env_refusing endpoint params
      = Inl (Error (endpoint @ ''?sFromDate='' @ sFromDate params
                      @ ''&sToDate='' @ sToDate params))" for endpoint params
    by (simp add: env_refusing_def env_answering_def)
  show ?thesis
    using sent by (simp add: year refuse endpoint_example numToString_2024)
qed

section \<open>Properties of the normalizers\<close>

lemma truthy_defined: "truthy v \<Longrightarrow> defined v"
  by (cases v) (simp_all add: defined_def)

lemma or_else_filled: "defined d \<Longrightarrow> filled d (or_else v d)"
  by (simp add: filled_def or_else_def truthy_defined)

lemma defined_defaults: "defined (Str s)" "defined (Arr xs)"
  by (simp_all add: defined_def)

lemmas fill = or_else_filled defined_defaults

lemma mapM_Some: "mapM f xs = Some ys \<Longrightarrow> \<forall>y \<in> set ys. \<exists>x \<in> set xs. f x = Some y"
proof (induction xs arbitrary: ys)
  case Nil
  then show ?case by simp
next
  case (Cons x xs)
  then show ?case by (auto split: option.splits)
qed

lemma tryParse_Inr:
  "tryParse msg parsed body = Inr r \<Longrightarrow> \<exists>response. parsed = Inr response \<and> body response = Some r"
  by (auto simp: tryParse_def split: sum.splits option.splits)

lemma mkWard_fields:
  "mkWard n = Some w \<Longrightarrow>
   filled (Str '''') (wardtitle w) \<and> filled (Str ''0'') (councillorcount (councillors w))"
  by (auto simp: mkWard_def fill split: if_splits)

lemma mkCommittee_fields:
  "mkCommittee n = Some c \<Longrightarrow>
   filled (Str '''') (committeeid c) \<and> filled (Str '''') (committeetitle c)
   \<and> filled (Str '''') (committeedescription c) \<and> filled (Str '''') (committeetype c)"
  by (auto simp: mkCommittee_def fill split: if_splits)

lemma mkCommitteeMeeting_fields:
  "mkCommitteeMeeting k n = Some m \<Longrightarrow>
   filled (Str '''') (meetingid m) \<and> filled (Str ''Council Meeting'') (meetingtitle m)
   \<and> filled (Str '''') (meetingdate m) \<and> filled (Str '''') (meetingtime m)
   \<and> meetinglocation m = Str ''''
   \<and> filled (Str '''') (meeting_committeeid m) \<and> filled (Str '''') (meeting_committeetitle m)"
  by (auto simp: mkCommitteeMeeting_def fill split: if_splits)

lemma mkDatedMeeting_fields:
  "mkDatedMeeting n = Some m \<Longrightarrow>
   filled (Str '''') (meetingid m) \<and> filled (Str ''Council Meeting'') (meetingtitle m)
   \<and> filled (Str '''') (meetingdate m) \<and> filled (Str '''') (meetingtime m)
   \<and> meetinglocation m = Str ''''
   \<and> filled (Str '''') (meeting_committeeid m) \<and> filled (Str '''') (meeting_committeetitle m)"
  by (auto simp: mkDatedMeeting_def fill split: if_splits)

lemma mkCalendarEvent_fields:
  "mkCalendarEvent n = Some ev \<Longrightarrow>
   filled (Str '''') (eventid ev) \<and> filled (Str '''') (eventtitle ev)
   \<and> filled (Str '''') (eventdate ev) \<and> filled (Str '''') (eventdescription ev)
   \<and> filled (Str '''') (eventlocation ev)"
  by (auto simp: mkCalendarEvent_def fill split: if_splits)

lemma mkParishCouncil_fields:
  "mkParishCouncil n = Some p \<Longrightarrow>
   filled (Str '''') (parishcouncilid p) \<and> filled (Str '''') (parishcounciltitle p)
   \<and> filled (Str '''') (parishcouncilwebsite p) \<and> filled (Str '''') (parishcouncilcontact p)"
  by (auto simp: mkParishCouncil_def fill split: if_splits)

lemma mkElectionResult_fields:
  "mkElectionResult n = Some r \<Longrightarrow>
   filled (Str '''') (electionid r) \<and> filled (Str '''') (electiontitle r)
   \<and> filled (Str '''') (electiondate r) \<and> filled (Arr []) (results r)"
  by (auto simp: mkElectionResult_def fill split: if_splits)

lemma mkWebCastFromMeeting_fields:
  "mkWebCastFromMeeting n = Some m \<Longrightarrow>
   filled (Str '''') (webcast_meetingid m) \<and> filled (Str '''') (webcast_meetingtitle m)
   \<and> filled (Str '''') (webcasturl m) \<and> filled (Str '''') (webcast_meetingdate m)"
  by (auto simp: mkWebCastFromMeeting_def fill split: if_splits)

lemma mkWebCastMeeting_fields:
  "mkWebCastMeeting n = Some m \<Longrightarrow>
   filled (Str '''') (webcast_meetingid m) \<and> filled (Str '''') (webcast_meetingtitle m)
   \<and> filled (Str '''') (webcasturl m) \<and> filled (Str '''') (webcast_meetingdate m)"
  by (auto simp: mkWebCastMeeting_def fill split: if_splits)

lemma mkMpOrMep_fields:
  "mkMpOrMep n = Some mp \<Longrightarrow>
   filled (Str '''') (mpid mp) \<and> filled (Str '''') (mpname mp)
   \<and> filled (Str '''') (constituency mp) \<and> filled (Str '''') (party mp)
   \<and> filled (Arr []) (wards mp)"
  by (auto simp: mkMpOrMep_def fill split: if_splits)

lemma councillorsBody_fields:
  assumes "councillorsBody response = Some ws"
  shows "\<forall>w \<in> set ws. filled (Str '''') (wardtitle w)
            \<and> filled (Str ''0'') (councillorcount (councillors w))"
  using assms
  by (auto simp: councillorsBody_def Let_def split: Option.bind_splits if_splits
        dest!: mapM_Some mkWard_fields)

lemma committeesBody_fields:
  assumes "committeesBody response = Some cs"
  shows "\<forall>c \<in> set cs. filled (Str '''') (committeeid c) \<and> filled (Str '''') (committeetitle c)
   \<and> filled (Str '''') (committeedescription c) \<and> filled (Str '''') (committeetype c)"
  using assms
  by (auto simp: committeesBody_def Let_def split: Option.bind_splits if_splits
        dest!: mapM_Some mkCommittee_fields)

lemma meetingsBody_fields:
  assumes "meetingsBody response = Some ms"
  shows "\<forall>m \<in> set ms. filled (Str '''') (meetingid m)
   \<and> filled (Str ''Council Meeting'') (meetingtitle m)
   \<and> filled (Str '''') (meetingdate m) \<and> filled (Str '''') (meetingtime m)
   \<and> meetinglocation m = Str ''''
   \<and> filled (Str '''') (meeting_committeeid m) \<and> filled (Str '''') (meeting_committeetitle m)"
  using assms
  by (auto simp: meetingsBody_def Let_def split: Option.bind_splits if_splits
        dest!: mapM_Some mkCommitteeMeeting_fields mkDatedMeeting_fields)

lemma calendarEventsBody_fields:
  assumes "calendarEventsBody response = Some evs"
  shows "\<forall>ev \<in> set evs. filled (Str '''') (eventid ev) \<and> filled (Str '''') (eventtitle ev)
   \<and> filled (Str '''') (eventdate ev) \<and> filled (Str '''') (eventdescription ev)
   \<and> filled (Str '''') (eventlocation ev)"
  using assms
  by (auto simp: calendarEventsBody_def Let_def split: Option.bind_splits if_splits
        dest!: mapM_Some mkCalendarEvent_fields)

lemma parishCouncilsBody_fields:
  assumes "parishCouncilsBody response = Some ps"
  shows "\<forall>p \<in> set ps. filled (Str '''') (parishcouncilid p)
   \<and> filled (Str '''') (parishcounciltitle p)
   \<and> filled (Str '''') (parishcouncilwebsite p) \<and> filled (Str '''') (parishcouncilcontact p)"
  using assms
  by (auto simp: parishCouncilsBody_def Let_def split: Option.bind_splits if_splits
        dest!: mapM_Some mkParishCouncil_fields)

lemma electionResultsBody_fields:
  assumes "electionResultsBody response = Some rs"
  shows "\<forall>r \<in> set rs. filled (Str '''') (electionid r) \<and> filled (Str '''') (electiontitle r)
   \<and> filled (Str '''') (electiondate r) \<and> filled (Arr []) (results r)"
  using assms
  by (auto simp: electionResultsBody_def Let_def split: Option.bind_splits if_splits
        dest!: mapM_Some mkElectionResult_fields)

lemma webCastMeetingsBody_fields:
  assumes "webCastMeetingsBody response = Some wms"
  shows "\<forall>m \<in> set wms. filled (Str '''') (webcast_meetingid m)
   \<and> filled (Str '''') (webcast_meetingtitle m)
   \<and> filled (Str '''') (webcasturl m) \<and> filled (Str '''') (webcast_meetingdate m)"
  using assms
  by (auto simp: webCastMeetingsBody_def Let_def split: Option.bind_splits if_splits
        dest!: mapM_Some mkWebCastFromMeeting_fields mkWebCastMeeting_fields)

lemma mpOrMepsBody_fields:
  assumes "mpOrMepsBody response = Some mps"
  shows "\<forall>mp \<in> set mps. filled (Str '''') (mpid mp) \<and> filled (Str '''') (mpname mp)
   \<and> filled (Str '''') (constituency mp) \<and> filled (Str '''') (party mp)
   \<and> filled (Arr []) (wards mp)"
  using assms
  by (auto simp: mpOrMepsBody_def Let_def split: Option.bind_splits if_splits
        dest!: mapM_Some mkMpOrMep_fields)

lemma parseMeetingsResponse_Inr:
  "parseMeetingsResponse P x = Inr ms \<Longrightarrow>
   \<exists>response. meetingsChecks x = None \<and> P x = Inr response \<and> meetingsBody response = Some ms"
  by (auto simp: parseMeetingsResponse_def parseMeetingsTry_def
        split: sum.splits option.splits)

text \<open>
  Claim C3, as the code has it. Whenever a normalizer returns a list, every field that
  it builds for an element of the list is defined: it holds a truthy value of the parsed
  XML or its default. The default is the empty string, but \<open>'0'\<close> for
  \<open>councillorcount\<close>, \<open>'Council Meeting'\<close> for \<open>meetingtitle\<close> and the empty
  array for \<open>results\<close> and \<open>wards\<close>. This holds for wards, committees, meetings,
  calendar events, parish councils, election results, webcast meetings and MP/MEP
  records; the councillors of a ward are handed on as they were parsed, and nothing is
  said of their fields.
\<close>

theorem normalizers_fill_fields:
  "(parseCouncillorsResponse P x = Inr ws \<longrightarrow>
      (\<forall>w \<in> set ws. filled (Str '''') (wardtitle w)
         \<and> filled (Str ''0'') (councillorcount (councillors w))))
   \<and> (parseCommitteesResponse P x = Inr cs \<longrightarrow>
      (\<forall>c \<in> set cs. filled (Str '''') (committeeid c) \<and> filled (Str '''') (committeetitle c)
         \<and> filled (Str '''') (committeedescription c) \<and> filled (Str '''') (committeetype c)))
   \<and> (parseMeetingsResponse P x = Inr ms \<longrightarrow>
      (\<forall>m \<in> set ms. filled (Str '''') (meetingid m)
         \<and> filled (Str ''Council Meeting'') (meetingtitle m)
         \<and> filled (Str '''') (meetingdate m) \<and> filled (Str '''') (meetingtime m)
         \<and> meetinglocation m = Str ''''
         \<and> filled (Str '''') (meeting_committeeid m)
         \<and> filled (Str '''') (meeting_committeetitle m)))
   \<and> (parseCalendarEventsResponse P x = Inr evs \<longrightarrow>
      (\<forall>ev \<in> set evs. filled (Str '''') (eventid ev) \<and> filled (Str '''') (eventtitle ev)
         \<and> filled (Str '''') (eventdate ev) \<and> filled (Str '''') (eventdescription ev)
         \<and> filled (Str '''') (eventlocation ev)))
   \<and> (parseParishCouncilsResponse P x = Inr ps \<longrightarrow>
      (\<forall>p \<in> set ps. filled (Str '''') (parishcouncilid p)
         \<and> filled (Str '''') (parishcounciltitle p)
         \<and> filled (Str '''') (parishcouncilwebsite p)
         \<and> filled (Str '''') (parishcouncilcontact p)))
   \<and> (parseElectionResultsResponse P x = Inr rs \<longrightarrow>
      (\<forall>r \<in> set rs. filled (Str '''') (electionid r) \<and> filled (Str '''') (electiontitle r)
         \<and> filled (Str '''') (electiondate r) \<and> filled (Arr []) (results r)))
   \<and> (parseWebCastMeetingsResponse P x = Inr wms \<longrightarrow>
      (\<forall>m \<in> set wms. filled (Str '''') (webcast_meetingid m)
         \<and> filled (Str '''') (webcast_meetingtitle m)
         \<and> filled (Str '''') (webcasturl m) \<and> filled (Str '''') (webcast_meetingdate m)))
   \<and> (parseMpOrMepsAndWardsResponse P x = Inr mps \<longrightarrow>
      (\<forall>mp \<in> set mps. filled (Str '''') (mpid mp) \<and> filled (Str '''') (mpname mp)
         \<and> filled (Str '''') (constituency mp) \<and> filled (Str '''') (party mp)
         \<and> filled (Arr []) (wards mp)))
   \<and> (\<forall>d v. filled d v \<longrightarrow> defined v)"
proof (intro conjI impI)
  assume "parseCouncillorsResponse P x = Inr ws"
  then show "\<forall>w \<in> set ws. filled (Str '''') (wardtitle w)
         \<and> filled (Str ''0'') (councillorcount (councillors w))"
    unfolding parseCouncillorsResponse_def
    by (blast dest: tryParse_Inr councillorsBody_fields)
next
  assume "parseCommitteesResponse P x = Inr cs"
  then show "\<forall>c \<in> set cs. filled (Str '''') (committeeid c) \<and> filled (Str '''') (committeetitle c)
         \<and> filled (Str '''') (committeedescription c) \<and> filled (Str '''') (committeetype c)"
    unfolding parseCommitteesResponse_def
    by (blast dest: tryParse_Inr committeesBody_fields)
next
  assume "parseMeetingsResponse P x = Inr ms"
  then show "\<forall>m \<in> set ms. filled (Str '''') (meetingid m)
         \<and> filled (Str ''Council Meeting'') (meetingtitle m)
         \<and> filled (Str '''') (meetingdate m) \<and> filled (Str '''') (meetingtime m)
         \<and> meetinglocation m = Str ''''
         \<and> filled (Str '''') (meeting_committeeid m)
         \<and> filled (Str '''') (meeting_committeetitle m)"
    by (blast dest: parseMeetingsResponse_Inr meetingsBody_fields)
next
  assume "parseCalendarEventsResponse P x = Inr evs"
  then show "\<forall>ev \<in> set evs. filled (Str '''') (eventid ev) \<and> filled (Str '''') (eventtitle ev)
         \<and> filled (Str '''') (eventdate ev) \<and> filled (Str '''') (eventdescription ev)
         \<and> filled (Str '''') (eventlocation ev)"
    unfolding parseCalendarEventsResponse_def
    by (blast dest: tryParse_Inr calendarEventsBody_fields)
next
  assume "parseParishCouncilsResponse P x = Inr ps"
  then show "\<forall>p \<in> set ps. filled (Str '''') (parishcouncilid p)
         \<and> filled (Str '''') (parishcounciltitle p)
         \<and> filled (Str '''') (parishcouncilwebsite p)
         \<and> filled (Str '''') (parishcouncilcontact p)"
    unfolding parseParishCouncilsResponse_def
    by (blast dest: tryParse_Inr parishCouncilsBody_fields)
next
  assume "parseElectionResultsResponse P x = Inr rs"
  then show "\<forall>r \<in> set rs. filled (Str '''') (electionid r) \<and> filled (Str '''') (electiontitle r)
         \<and> filled (Str '''') (electiondate r) \<and> filled (Arr []) (results r)"
    unfolding parseElectionResultsResponse_def
    by (blast dest: tryParse_Inr electionResultsBody_fields)
next
  assume "parseWebCastMeetingsResponse P x = Inr wms"
  then show "\<forall>m \<in> set wms. filled (Str '''') (webcast_meetingid m)
         \<and> filled (Str '''') (webcast_meetingtitle m)
         \<and> filled (Str '''') (webcasturl m) \<and> filled (Str '''') (webcast_meetingdate m)"
    unfolding parseWebCastMeetingsResponse_def
    by (blast dest: tryParse_Inr webCastMeetingsBody_fields)
next
  assume "parseMpOrMepsAndWardsResponse P x = Inr mps"
  then show "\<forall>mp \<in> set mps. filled (Str '''') (mpid mp) \<and> filled (Str '''') (mpname mp)
         \<and> filled (Str '''') (constituency mp) \<and> filled (Str '''') (party mp)
         \<and> filled (Arr []) (wards mp)"
    unfolding parseMpOrMepsAndWardsResponse_def
    by (blast dest: tryParse_Inr mpOrMepsBody_fields)
next
  show "\<forall>d v. filled d v \<longrightarrow> defined v"
    by (simp add: filled_def)
qed

lemma wards_example:
  "parseCouncillorsResponse xml2js_examples
     ''<councillorsbyward><wards><ward><wardtitle>Abbey</wardtitle><councillors><councillorcount>1</councillorcount><councillor><fullusername>Cllr A</fullusername></councillor></councillors></ward></wards></councillorsbyward>''
   = Inr [\<lparr>wardtitle = Str ''Abbey'',
           councillors = \<lparr>councillorcount = Str ''1'',
                          councillor = [Obj [(''fullusername'', Str ''Cllr A'')]]\<rparr>\<rparr>]"
  by code_simp

lemma committees_example:
  "parseCommitteesResponse xml2js_examples
     ''<committees><committee><committeeid>7</committeeid></committee></committees>''
   = Inr [\<lparr>committeeid = Str ''7'', committeetitle = Str '''',
           committeedescription = Str '''', committeetype = Str ''''\<rparr>]"
  by code_simp

lemma meetings_example:
  "parseMeetingsResponse xml2js_examples
     ''<getmeetings><committee><committeeid>7</committeeid><committeemeetings><meeting><meetingid>12</meetingid></meeting></committeemeetings></committee></getmeetings>''
   = Inr [\<lparr>meetingid = Str ''12'', meetingtitle = Str ''Council Meeting'',
           meetingdate = Str '''', meetingtime = Str '''', meetinglocation = Str '''',
           meeting_committeeid = Str ''7'', meeting_committeetitle = Str ''''\<rparr>]"
  by code_simp

lemma calendar_example:
  "parseCalendarEventsResponse xml2js_examples
     ''<calendarevents><event><eventid>3</eventid></event></calendarevents>''
   = Inr [\<lparr>eventid = Str ''3'', eventtitle = Str '''', eventdate = Str '''',
           eventdescription = Str '''', eventlocation = Str ''''\<rparr>]"
  by code_simp

lemma parish_example:
  "parseParishCouncilsResponse xml2js_examples
     ''<parishcouncils><parishcouncil><parishcouncilid>4</parishcouncilid></parishcouncil></parishcouncils>''
   = Inr [\<lparr>parishcouncilid = Str ''4'', parishcounciltitle = Str '''',
           parishcouncilwebsite = Str '''', parishcouncilcontact = Str ''''\<rparr>]"
  by code_simp

lemma election_example:
  "parseElectionResultsResponse xml2js_examples
     ''<electionresults><electionresult><electionid>5</electionid></electionresult></electionresults>''
   = Inr [\<lparr>electionid = Str ''5'', electiontitle = Str '''', electiondate = Str '''',
           results = Arr []\<rparr>]"
  by code_simp

lemma webcast_example:
  "parseWebCastMeetingsResponse xml2js_examples
     ''<webcastmeetings><webcastmeeting><meetingid>6</meetingid></webcastmeeting></webcastmeetings>''
   = Inr [\<lparr>webcast_meetingid = Str ''6'', webcast_meetingtitle = Str '''',
           webcasturl = Str '''', webcast_meetingdate = Str ''''\<rparr>]"
  by code_simp

lemma mp_example:
  "parseMpOrMepsAndWardsResponse xml2js_examples
     ''<mpswards><mps><mp><mpid>8</mpid></mp></mps></mpswards>''
   = Inr [\<lparr>mpid = Str ''8'', mpname = Str '''', constituency = Str '''',
           party = Str '''', wards = Arr []\<rparr>]"
  by code_simp

theorem normalizers_fill_fields_witness:
  "(parseCouncillorsResponse xml2js_examples
      ''<councillorsbyward><wards><ward><wardtitle>Abbey</wardtitle><councillors><councillorcount>1</councillorcount><councillor><fullusername>Cllr A</fullusername></councillor></councillors></ward></wards></councillorsbyward>''
    = Inr [\<lparr>wardtitle = Str ''Abbey'',
            councillors = \<lparr>councillorcount = Str ''1'',
                           councillor = [Obj [(''fullusername'', Str ''Cllr A'')]]\<rparr>\<rparr>]
    \<and> filled (Str ''0'') (Str ''1''))
   \<and> (parseCommitteesResponse xml2js_examples
        ''<committees><committee><committeeid>7</committeeid></committee></committees>''
      = Inr [\<lparr>committeeid = Str ''7'', committeetitle = Str '''',
              committeedescription = Str '''', committeetype = Str ''''\<rparr>]
      \<and> filled (Str '''') (Str ''7'') \<and> filled (Str '''') (Str '''') \<and> defined (Str ''''))
   \<and> (parseMeetingsResponse xml2js_examples
        ''<getmeetings><committee><committeeid>7</committeeid><committeemeetings><meeting><meetingid>12</meetingid></meeting></committeemeetings></committee></getmeetings>''
      = Inr [\<lparr>meetingid = Str ''12'', meetingtitle = Str ''Council Meeting'',
              meetingdate = Str '''', meetingtime = Str '''', meetinglocation = Str '''',
              meeting_committeeid = Str ''7'', meeting_committeetitle = Str ''''\<rparr>]
      \<and> filled (Str ''Council Meeting'') (Str ''Council Meeting''))
   \<and> (parseCalendarEventsResponse xml2js_examples
        ''<calendarevents><event><eventid>3</eventid></event></calendarevents>''
      = Inr [\<lparr>eventid = Str ''3'', eventtitle = Str '''', eventdate = Str '''',
              eventdescription = Str '''', eventlocation = Str ''''\<rparr>]
      \<and> filled (Str '''') (Str ''3''))
   \<and> (parseParishCouncilsResponse xml2js_examples
        ''<parishcouncils><parishcouncil><parishcouncilid>4</parishcouncilid></parishcouncil></parishcouncils>''
      = Inr [\<lparr>parishcouncilid = Str ''4'', parishcounciltitle = Str '''',
              parishcouncilwebsite = Str '''', parishcouncilcontact = Str ''''\<rparr>]
      \<and> filled (Str '''') (Str ''4''))
   \<and> (parseElectionResultsResponse xml2js_examples
        ''<electionresults><electionresult><electionid>5</electionid></electionresult></electionresults>''
      = Inr [\<lparr>electionid = Str ''5'', electiontitle = Str '''', electiondate = Str '''',
              results = Arr []\<rparr>]
      \<and> filled (Arr []) (Arr []))
   \<and> (parseWebCastMeetingsResponse xml2js_examples
        ''<webcastmeetings><webcastmeeting><meetingid>6</meetingid></webcastmeeting></webcastmeetings>''
      = Inr [\<lparr>webcast_meetingid = Str ''6'', webcast_meetingtitle = Str '''',
              webcasturl = Str '''', webcast_meetingdate = Str ''''\<rparr>]
      \<and> filled (Str '''') (Str ''6''))
   \<and> (parseMpOrMepsAndWardsResponse xml2js_examples
        ''<mpswards><mps><mp><mpid>8</mpid></mp></mps></mpswards>''
      = Inr [\<lparr>mpid = Str ''8'', mpname = Str '''', constituency = Str '''',
              party = Str '''', wards = Arr []\<rparr>]
      \<and> filled (Str '''') (Str ''8''))"
proof -
  have ward: "filled (Str ''0'') (Str ''1'')"
    using normalizers_fill_fields [THEN conjunct1, THEN mp, OF wards_example]
    by simp
  have committee: "filled (Str '''') (Str ''7'') \<and> filled (Str '''') (Str '''')"
    using normalizers_fill_fields
      [THEN conjunct2, THEN conjunct1, THEN mp, OF committees_example]
    by simp
  have meeting: "filled (Str ''Council Meeting'') (Str ''Council Meeting'')"
    using normalizers_fill_fields
      [THEN conjunct2, THEN conjunct2, THEN conjunct1, THEN mp, OF meetings_example]
    by simp
  have event: "filled (Str '''') (Str ''3'')"
    using normalizers_fill_fields
      [THEN conjunct2, THEN conjunct2, THEN conjunct2, THEN conjunct1, THEN mp,
       OF calendar_example]
    by simp
  have parish: "filled (Str '''') (Str ''4'')"
    using normalizers_fill_fields
      [THEN conjunct2, THEN conjunct2, THEN conjunct2, THEN conjunct2, THEN conjunct1,
       THEN mp, OF parish_example]
    by simp
  have election: "filled (Arr []) (Arr [])"
    using normalizers_fill_fields
      [THEN conjunct2, THEN conjunct2, THEN conjunct2, THEN conjunct2, THEN conjunct2,
       THEN conjunct1, THEN mp, OF election_example]
    by simp
  have webcast: "filled (Str '''') (Str ''6'')"
    using normalizers_fill_fields
      [THEN conjunct2, THEN conjunct2, THEN conjunct2, THEN conjunct2, THEN conjunct2,
       THEN conjunct2, THEN conjunct1, THEN mp, OF webcast_example]
    by simp
  have mp: "filled (Str '''') (Str ''8'')"
    using normalizers_fill_fields
      [THEN conjunct2, THEN conjunct2, THEN conjunct2, THEN conjunct2, THEN conjunct2,
       THEN conjunct2, THEN conjunct2, THEN conjunct1, THEN mp, OF mp_example]
    by simp
  have def: "defined (Str '''')"
    using normalizers_fill_fields
      [THEN conjunct2, THEN conjunct2, THEN conjunct2, THEN conjunct2, THEN conjunct2,
       THEN conjunct2, THEN conjunct2, THEN conjunct2] committee
    by blast
  show ?thesis
    by (intro conjI wards_example committees_example meetings_example calendar_example
          parish_example election_example webcast_example mp_example
          ward committee [THEN conjunct1] committee [THEN conjunct2] meeting event parish
          election webcast mp def)
qed

text \<open>
  Claim C3 as it is stated fails for councillors: a \<open>councillor\<close> element without a
  \<open>councillorid\<close> comes back as it was parsed, and its required field
  \<open>councillorid\<close> is undefined.
\<close>

theorem councillor_fields_not_filled:
  "parseCouncillorsResponse xml2js_examples
     ''<councillorsbyward><wards><ward><wardtitle>Abbey</wardtitle><councillors><councillorcount>1</councillorcount><councillor><fullusername>Cllr A</fullusername></councillor></councillors></ward></wards></councillorsbyward>''
   = Inr [\<lparr>wardtitle = Str ''Abbey'',
           councillors = \<lparr>councillorcount = Str ''1'',
                          councillor = [Obj [(''fullusername'', Str ''Cllr A'')]]\<rparr>\<rparr>]
   \<and> get (Obj [(''fullusername'', Str ''Cllr A'')]) ''councillorid'' = Undefined
   \<and> \<not> defined (get (Obj [(''fullusername'', Str ''Cllr A'')]) ''councillorid'')"
  by code_simp

section \<open>Properties of the meetings normalizer\<close>

lemma startsWith_xml_lt: "startsWith t ''<?xml'' \<Longrightarrow> startsWith t ''<''"
  by (cases t) (auto simp: startsWith_def)

lemma trim_Nil: "trim [] = []"
  by (simp add: trim_def)

lemma meetingsChecks_None:
  "meetingsChecks body = None \<longleftrightarrow>
     trim body \<noteq> [] \<and> startsWith (trim body) ''<''
     \<and> \<not> startsWith (trim body) ''<!DOCTYPE'' \<and> \<not> startsWith (trim body) ''<html''
     \<and> \<not> startsWith (trim body) ''<HTML''
     \<and> \<not> (includes_s body ''<title>'' \<and> includes_s body ''Error'')"
  using startsWith_xml_lt [of "trim body"] trim_Nil
  by (auto simp: meetingsChecks_def)

lemma meetingsBody_no_shape:
  assumes "\<not> nullish response"
    "\<not> truthy (get (get response ''getmeetings'') ''committee'')"
    "\<not> truthy (get (get response ''getmeetingsbydate'') ''meetings'')"
  shows "meetingsBody response = Some []"
  using assms by (simp add: meetingsBody_def readProp_def Let_def)

lemma parseMeetingsResponse_passed:
  assumes "meetingsChecks body = None" "P body = Inr response"
  shows "parseMeetingsResponse P body =
           (case meetingsBody response of
              None \<Rightarrow> Inl (Error ''Failed to parse meetings response'')
            | Some ms \<Rightarrow> Inr ms)"
  using assms
  by (simp add: parseMeetingsResponse_def parseMeetingsTry_def split: option.split)

text \<open>
  The parser returns \<open>null\<close> for a document with no element, a comment alone for
  one. Such a body is not well-formed XML; the normalizer fails on it.
\<close>

lemma parseMeetingsResponse_null_document:
  assumes "meetingsChecks body = None" "P body = Inr Null"
  shows "parseMeetingsResponse P body = Inl (Error ''Failed to parse meetings response'')"
  using parseMeetingsResponse_passed [where P = P and body = body, OF assms]
  by (simp add: meetingsBody_def readProp_def)

text \<open>
  Claim C6. The bodies on which the normalizer must fail are those of claim C2: blank,
  not starting with \<open><\<close>, starting with \<open><!DOCTYPE\<close>, \<open><html\<close> or \<open><HTML\<close>, or
  containing both \<open><title>\<close> and \<open>Error\<close>. Let the body be none of these, and let
  it be well-formed XML: the parser returns an object whose one key is the name of the
  root element. If the root is \<open>getmeetings\<close> and holds a \<open>meetingscount\<close> only,
  the normalizer returns the empty list, not an error. So it does for every such body
  of no meeting shape, one that has neither a \<open>committee\<close> under \<open>getmeetings\<close> nor
  \<open>meetings\<close> under \<open>getmeetingsbydate\<close>; the bodies with another root element are
  among them.
\<close>

theorem parseMeetingsResponse_empty_shapes:
  assumes "trim body \<noteq> []" "startsWith (trim body) ''<''"
    "\<not> startsWith (trim body) ''<!DOCTYPE''" "\<not> startsWith (trim body) ''<html''"
    "\<not> startsWith (trim body) ''<HTML''"
    "\<not> (includes_s body ''<title>'' \<and> includes_s body ''Error'')"
    and "P body = Inr response"
  shows "(response = Obj [(''getmeetings'', Obj [(''meetingscount'', c)])] \<longrightarrow>
            parseMeetingsResponse P body = Inr [])
     \<and> (response = Obj [(rootName, content)]
          \<and> \<not> truthy (get (get response ''getmeetings'') ''committee'')
          \<and> \<not> truthy (get (get response ''getmeetingsbydate'') ''meetings'') \<longrightarrow>
            parseMeetingsResponse P body = Inr [])
     \<and> (response = Obj [(rootName, content)]
          \<and> rootName \<noteq> ''getmeetings'' \<and> rootName \<noteq> ''getmeetingsbydate'' \<longrightarrow>
            parseMeetingsResponse P body = Inr [])"
proof -
  have checks: "meetingsChecks body = None"
    using assms(1-6) by (simp add: meetingsChecks_None)
  note parsed = parseMeetingsResponse_passed [where P = P and body = body, OF checks assms(7)]
  have general: "parseMeetingsResponse P body = Inr []"
    if "\<not> nullish response"
      "\<not> truthy (get (get response ''getmeetings'') ''committee'')"
      "\<not> truthy (get (get response ''getmeetingsbydate'') ''meetings'')"
    using meetingsBody_no_shape [OF that] parsed by simp
  have count: "parseMeetingsResponse P body = Inr []"
    if "response = Obj [(''getmeetings'', Obj [(''meetingscount'', c)])]"
    using that general by simp
  have shape: "parseMeetingsResponse P body = Inr []"
    if "response = Obj [(rootName, content)]"
      "\<not> truthy (get (get response ''getmeetings'') ''committee'')"
      "\<not> truthy (get (get response ''getmeetingsbydate'') ''meetings'')"
    using that general by simp
  have other: "parseMeetingsResponse P body = Inr []"
    if "response = Obj [(rootName, content)]" "rootName \<noteq> ''getmeetings''"
      "rootName \<noteq> ''getmeetingsbydate''"
    using that general by simp
  from count shape other show ?thesis by blast
qed

theorem parseMeetingsResponse_empty_shapes_witness:
  "parseMeetingsResponse xml2js_examples
     ''<getmeetings><meetingscount>0</meetingscount></getmeetings>'' = Inr []
   \<and> parseMeetingsResponse xml2js_examples ''<status><code>1</code></status>'' = Inr []"
proof -
  have 1: "parseMeetingsResponse xml2js_examples
     ''<getmeetings><meetingscount>0</meetingscount></getmeetings>'' = Inr []"
  proof -
    let ?body = "''<getmeetings><meetingscount>0</meetingscount></getmeetings>''"
    have a: "trim ?body \<noteq> []" by code_simp
    have b: "startsWith (trim ?body) ''<''" by code_simp
    have c: "\<not> startsWith (trim ?body) ''<!DOCTYPE''" by code_simp
    have d: "\<not> startsWith (trim ?body) ''<html''" by code_simp
    have e: "\<not> startsWith (trim ?body) ''<HTML''" by code_simp
    have f: "\<not> (includes_s ?body ''<title>'' \<and> includes_s ?body ''Error'')" by code_simp
    have g: "xml2js_examples ?body
               = Inr (Obj [(''getmeetings'', Obj [(''meetingscount'', Str ''0'')])])"
      by code_simp
    show ?thesis
      using parseMeetingsResponse_empty_shapes [where P = xml2js_examples and body = ?body,
          OF a b c d e f g, THEN conjunct1, THEN mp, OF refl] .
  qed
  have 2: "parseMeetingsResponse xml2js_examples ''<status><code>1</code></status>'' = Inr []"
  proof -
    let ?body = "''<status><code>1</code></status>''"
    let ?content = "Obj [(''code'', Str ''1'')]"
    let ?v = "Obj [(''status'', ?content)]"
    have a: "trim ?body \<noteq> []" by code_simp
    have b: "startsWith (trim ?body) ''<''" by code_simp
    have c: "\<not> startsWith (trim ?body) ''<!DOCTYPE''" by code_simp
    have d: "\<not> startsWith (trim ?body) ''<html''" by code_simp
    have e: "\<not> startsWith (trim ?body) ''<HTML''" by code_simp
    have f: "\<not> (includes_s ?body ''<title>'' \<and> includes_s ?body ''Error'')" by code_simp
    have g: "xml2js_examples ?body = Inr ?v"
      by code_simp
    have h: "?v = Obj [(''status'', ?content)]
          \<and> \<not> truthy (get (get ?v ''getmeetings'') ''committee'')
          \<and> \<not> truthy (get (get ?v ''getmeetingsbydate'') ''meetings'')"
      by code_simp
    have i: "?v = Obj [(''status'', ?content)]
          \<and> ''status'' \<noteq> ''getmeetings'' \<and> ''status'' \<noteq> ''getmeetingsbydate''"
      by code_simp
    have "parseMeetingsResponse xml2js_examples ?body = Inr []"
      using parseMeetingsResponse_empty_shapes [where P = xml2js_examples and body = ?body,
          OF a b c d e f g, THEN conjunct2, THEN conjunct2, THEN mp, OF i] .
    then show ?thesis
      using parseMeetingsResponse_empty_shapes [where P = xml2js_examples and body = ?body,
          OF a b c d e f g, THEN conjunct2, THEN conjunct1, THEN mp, OF h]
      by simp
  qed
  from 1 2 show ?thesis by (intro conjI)
qed

lemma meetingsChecks_malformed:
  assumes "trim body = [] \<or> \<not> startsWith (trim body) ''<''
     \<or> startsWith (trim body) ''<!DOCTYPE'' \<or> startsWith (trim body) ''<html''
     \<or> startsWith (trim body) ''<HTML''
     \<or> (includes_s body ''<title>'' \<and> includes_s body ''Error'')"
  shows "meetingsChecks body \<noteq> None"
  using assms by (auto simp: meetingsChecks_None)

lemma parseMeetingsResponse_malformed:
  assumes "meetingsChecks body \<noteq> None"
  shows "parseMeetingsResponse P body = Inl (Error ''Failed to parse meetings response'')"
  using assms
  by (auto simp: parseMeetingsResponse_def parseMeetingsTry_def split: option.splits)

lemma handleApiResponse_parser_error:
  assumes "status response = 200" "data response \<noteq> []" "parser (data response) = Inl (Error m)"
  shows "handleApiResponse response parser = Inl (Error (''API parsing failed: '' @ m))"
  using assms by (simp add: handleApiResponse_def)

lemma handleApiResponse_no_data:
  assumes "status response = 200" "data response = []"
  shows "handleApiResponse response parser
           = Inl (Error ''API parsing failed: No data received from API'')"
  using assms by (simp add: handleApiResponse_def)

lemma includes_s_startsWith: "startsWith s p \<Longrightarrow> includes_s s p"
  by (cases s) (auto simp: startsWith_def)

lemma includes_s_prefix: "includes_s (b @ c) b"
  by (rule includes_s_startsWith) (simp add: startsWith_def)

lemma includes_s_middle: "includes_s (a @ b @ c) b"
proof (induction a)
  case Nil
  then show ?case using includes_s_prefix by simp
next
  case (Cons x a)
  then show ?case by simp
qed

text \<open>What the try throws for a body that is not XML holds an excerpt of the body.\<close>

lemma parseMeetingsTry_excerpt:
  assumes "trim body \<noteq> []" "\<not> startsWith (trim body) ''<''"
  shows "\<exists>m. parseMeetingsTry P body = Inl (Error m) \<and> includes_s m (take 100 body)"
proof -
  have no: "\<not> startsWith (trim body) ''<?xml''"
    using assms(2) startsWith_xml_lt by blast
  let ?pre = \<open>''Server returned non-XML response: "''\<close>
  let ?post = \<open>''...". Expected XML data but got different format. This usually indicates a server-side bug or missing parameters.''\<close>
  have "parseMeetingsTry P body = Inl (Error (?pre @ take 100 body @ ?post))"
    using assms no trim_Nil by (auto simp: parseMeetingsTry_def meetingsChecks_def)
  then show ?thesis
    using includes_s_middle [of ?pre "take 100 body" ?post] by blast
qed

text \<open>
  Claim C2, as far as the code goes. Let the URL parse, and let the HTTP client answer the
  meetings request with status 200 and a body that is blank, or does not start with
  \<open><\<close>, or starts with \<open><!DOCTYPE\<close>, \<open><html\<close> or \<open><HTML\<close>, or contains both
  \<open><title>\<close> and \<open>Error\<close>. Then \<open>getMeetings\<close> fails, and the message of its
  error is one of two fixed texts: the \<open>catch\<close> of \<open>parseMeetingsResponse\<close> has
  replaced the error that held the excerpt of the body (lemma
  \<open>parseMeetingsTry_excerpt\<close>), so no excerpt reaches the caller.
\<close>

theorem getMeetings_malformed_body_message:
  assumes "trim body = [] \<or> \<not> startsWith (trim body) ''<''
     \<or> startsWith (trim body) ''<!DOCTYPE'' \<or> startsWith (trim body) ''<html''
     \<or> startsWith (trim body) ''<HTML''
     \<or> (includes_s body ''<title>'' \<and> includes_s body ''Error'')"
    and "newURL e siteUrl = Some u"
    and "axiosGet e (getEndpointUrl siteUrl ''GetMeetings'')
           (meetingsParams (getFullYear e) cid fromDate toDate)
         = Inr \<lparr>status = 200, data = body\<rparr>"
  shows "snd (getMeetings e rl siteUrl (Some cid) fromDate toDate) =
     Inl (Error (if body = [] then ''API parsing failed: No data received from API''
                 else ''API parsing failed: Failed to parse meetings response''))"
proof -
  let ?response = "\<lparr>status = 200, data = body\<rparr>"
  let ?parser = "parseMeetingsResponse (parseStringPromise e)"
  have req: "snd (getMeetings e rl siteUrl (Some cid) fromDate toDate)
               = handleApiResponse ?response ?parser"
    using getMeetings_request [OF assms(2), of rl cid fromDate toDate] assms(3) by simp
  show ?thesis
  proof (cases "body = []")
    case True
    then show ?thesis
      using req handleApiResponse_no_data [of ?response ?parser] by simp
  next
    case False
    have "?parser body = Inl (Error ''Failed to parse meetings response'')"
      using meetingsChecks_malformed [OF assms(1)] by (rule parseMeetingsResponse_malformed)
    then show ?thesis
      using False req handleApiResponse_parser_error [of ?response ?parser] by simp
  qed
qed

lemma env_answering_url:
  "newURL (env_answering body) ''https://example.com''
     = Some \<lparr>protocol = ''https:'', hostname = ''example.com'', port = ''''\<rparr>"
  by (simp add: env_answering_def)

theorem getMeetings_malformed_body_message_witness:
  "\<not> startsWith (trim ''Service Unavailable'') ''<''
   \<and> snd (getMeetings (env_answering ''Service Unavailable'') Map.empty ''https://example.com''
            (Some 138) None None)
       = Inl (Error ''API parsing failed: Failed to parse meetings response'')
   \<and> \<not> includes_s ''API parsing failed: Failed to parse meetings response''
          ''Service Unavailable''"
proof -
  let ?body = "''Service Unavailable''"
  have a: "\<not> startsWith (trim ?body) ''<''"
    by code_simp
  then have mal: "trim ?body = [] \<or> \<not> startsWith (trim ?body) ''<''
     \<or> startsWith (trim ?body) ''<!DOCTYPE'' \<or> startsWith (trim ?body) ''<html''
     \<or> startsWith (trim ?body) ''<HTML''
     \<or> (includes_s ?body ''<title>'' \<and> includes_s ?body ''Error'')"
    by blast
  have ans: "axiosGet (env_answering ?body) (getEndpointUrl ''https://example.com'' ''GetMeetings'')
           (meetingsParams (getFullYear (env_answering ?body)) 138 None None)
         = Inr \<lparr>status = 200, data = ?body\<rparr>"
    by (simp add: env_answering_def)
  have "snd (getMeetings (env_answering ?body) Map.empty ''https://example.com''
            (Some 138) None None)
       = Inl (Error (if ?body = [] then ''API parsing failed: No data received from API''
                 else ''API parsing failed: Failed to parse meetings response''))"
    using getMeetings_malformed_body_message [where e = "env_answering ?body" and body = ?body, OF mal env_answering_url ans] .
  moreover have "\<not> includes_s ''API parsing failed: Failed to parse meetings response'' ?body"
    by code_simp
  ultimately show ?thesis
    using a by simp
qed

lemma parseMeetingsTry_example:
  \<open>parseMeetingsTry xml2js_examples ''Service Unavailable'' =
     Inl (Error ''Server returned non-XML response: "Service Unavailable...". Expected XML data but got different format. This usually indicates a server-side bug or missing parameters.'')\<close>
  by code_simp

end
